theory Spec2Isabelle
  imports Main
begin

section \<open>Errors and time\<close>

text \<open>
  A Go \<open>error\<close> is modelled by its message (\<open>errors.New\<close>, \<open>fmt.Errorf\<close> with \<open>%w\<close>
  appending the wrapped message). \<open>Panic\<close> stands for a run-time panic (nil dereference,
  index out of range): it is not a returned error, it unwinds the callers.
\<close>

datatype error = Err string | Panic string

fun Error :: "error \<Rightarrow> string" where
  "Error (Err m) = m"
| "Error (Panic m) = m"

text \<open>A \<open>time.Time\<close>, broken down in its own location; \<open>ZoneOffset\<close> in seconds east of UTC.\<close>

record time =
  Year :: nat
  Month :: nat
  Day :: nat
  Hour :: nat
  Minute :: nat
  Second :: nat
  ZoneOffset :: int

fun digits :: "nat \<Rightarrow> string" where
  "digits n = (if n < 10 then [char_of (48 + n)] else digits (n div 10) @ [char_of (48 + n mod 10)])"

declare digits.simps [simp del]

text \<open>Go's \<open>appendInt\<close> for a non-negative value: decimal, zero-padded to \<open>width\<close>.\<close>

definition appendInt :: "nat \<Rightarrow> nat \<Rightarrow> string" where
  "appendInt x width = replicate (width - length (digits x)) (CHR ''0'') @ digits x"

text \<open>\<open>fmt.Sprintf("%d", i)\<close>.\<close>

definition Sprintf_d :: "int \<Rightarrow> string" where
  "Sprintf_d i = (if i < 0 then ''-'' @ digits (nat (- i)) else digits (nat i))"

text \<open>\<open>t.Format("20060102-150405")\<close>.\<close>

definition Format_20060102_150405 :: "time \<Rightarrow> string" where
  "Format_20060102_150405 t =
     appendInt (Year t) 4 @ appendInt (Month t) 2 @ appendInt (Day t) 2 @ ''-'' @
     appendInt (Hour t) 2 @ appendInt (Minute t) 2 @ appendInt (Second t) 2"

text \<open>\<open>t.Format(time.RFC3339)\<close>, layout \<open>2006-01-02T15:04:05Z07:00\<close>.\<close>

definition Format_RFC3339 :: "time \<Rightarrow> string" where
  "Format_RFC3339 t =
     appendInt (Year t) 4 @ ''-'' @ appendInt (Month t) 2 @ ''-'' @ appendInt (Day t) 2 @ ''T'' @
     appendInt (Hour t) 2 @ '':'' @ appendInt (Minute t) 2 @ '':'' @ appendInt (Second t) 2 @
     (let zone = ZoneOffset t div 60 in
      if ZoneOffset t = 0 then ''Z''
      else (if zone < 0 then ''-'' else ''+'') @
           appendInt (nat \<bar>zone\<bar> div 60) 2 @ '':'' @ appendInt (nat \<bar>zone\<bar> mod 60) 2)"

section \<open>API types\<close>

record ServiceKopiaSnapshotInfo =
  ID :: string
  Time :: time
  Size :: int
  Source :: string
  Description :: string

record ServiceKopiaRetentionPolicy =
  KeepLatest :: int
  KeepHourly :: int
  KeepDaily :: int
  KeepWeekly :: int
  KeepMonthly :: int
  KeepAnnual :: int

record ServiceKopiaBackendS3 =
  Endpoint :: string
  Bucket :: string
  AccessKey :: string
  SecretKey :: string
  Region :: string

text \<open>The field \<open>S3\<close> is a pointer in the source: \<open>None\<close> is \<open>nil\<close>.\<close>

record ServiceKopiaBackendConfig =
  Type :: string
  S3 :: "ServiceKopiaBackendS3 option"

record ServiceKopiaConfig =
  Enabled :: bool
  RepositoryPassword :: string
  Backend :: ServiceKopiaBackendConfig
  Retention :: ServiceKopiaRetentionPolicy
  BackupFrequency :: string
  RestoreSnapshotID :: string

text \<open>
  \<open>Progress\<close> is a \<open>float64\<close> in the source; the service only ever stores the integral
  constants 0, 20, 25, ..., 100 in it, so it is an \<open>int\<close> here.
\<close>

record ServiceKopiaState =
  RepositoryConnected :: bool
  LastBackup :: time
  LastBackupWindow :: string
  LastStatus :: string
  InProgress :: bool
  Progress :: int
  AvailableSnapshots :: "ServiceKopiaSnapshotInfo list"

record ServiceKopia =
  State :: ServiceKopiaState
  Config :: ServiceKopiaConfig

section \<open>The host: external commands and the daemon's other packages\<close>

text \<open>
  Every call that leaves the service (a subprocess, the storage and zfs packages, the file
  system, the clock, the registry of services and applications, a maintenance window, the
  state file) is recorded in the order it is made.
\<close>

type_synonym window = nat

datatype call =
    RunCommand string "string list"
  | PoolExists string
  | DatasetExists string
  | CreateDataset string string "(string \<times> string) list"
  | Setenv string string
  | Stat string
  | MkdirAll string
  | RemoveAll string
  | TimeNow
  | SupportedServices
  | LoadService string
  | ServiceShouldStart string
  | ServiceStop string
  | ServiceStart string
  | LoadApplication string
  | ApplicationStop string string
  | ApplicationStart string string
  | IsCurrentlyActive window
  | StateSave

text \<open>
  What the host answers. Each answer may depend on the calls made so far, so that the same
  command can fail once and succeed later. The service only logs the errors of stopping and
  starting another service or an application, of \<open>os.Setenv\<close>, \<open>os.RemoveAll\<close> and
  \<open>state.Save\<close>, so these calls are recorded and have no answer here. The last three fields
  are pure library functions (\<open>filepath.Join\<close>, \<open>strings.TrimSpace\<close>, \<open>json.Unmarshal\<close>
  into the snapshot list).
\<close>

record host =
  run_command :: "call list \<Rightarrow> string \<Rightarrow> string list \<Rightarrow> error + string"
  pool_exists :: "call list \<Rightarrow> string \<Rightarrow> bool"
  dataset_exists :: "call list \<Rightarrow> string \<Rightarrow> bool"
  create_dataset :: "call list \<Rightarrow> string \<Rightarrow> string \<Rightarrow> (string \<times> string) list \<Rightarrow> error option"
  os_stat :: "call list \<Rightarrow> string \<Rightarrow> error option"
  os_mkdir_all :: "call list \<Rightarrow> string \<Rightarrow> error option"
  time_now :: "call list \<Rightarrow> time"
  supported_services :: "call list \<Rightarrow> string list"
  load_service :: "call list \<Rightarrow> string \<Rightarrow> error option"
  service_should_start :: "call list \<Rightarrow> string \<Rightarrow> bool"
  load_application :: "call list \<Rightarrow> string \<Rightarrow> error option"
  is_currently_active :: "call list \<Rightarrow> window \<Rightarrow> bool"
  filepath_Join :: "string list \<Rightarrow> string"
  strings_TrimSpace :: "string \<Rightarrow> string"
  json_Unmarshal :: "string \<Rightarrow> error + ServiceKopiaSnapshotInfo list"

section \<open>The daemon state the service works on\<close>

text \<open>
  \<open>Kopia\<close> is \<open>n.state.Services.Kopia\<close>, \<open>Applications\<close> is \<open>n.state.Applications\<close> (name and
  installed version, in the order the map is ranged over), \<open>MaintenanceWindows\<close> is
  \<open>n.state.System.Update.Config.MaintenanceWindows\<close>. Two fields are instrumentation:
  \<open>calls\<close>, the calls made to the host so far, and \<open>progress_log\<close>, every value assigned to
  \<open>State.Progress\<close> so far.
\<close>

record state =
  Kopia :: ServiceKopia
  Applications :: "(string \<times> string) list"
  MaintenanceWindows :: "window list"
  calls :: "call list"
  progress_log :: "int list"

definition kstate :: "state \<Rightarrow> ServiceKopiaState" where
  "kstate s = State (Kopia s)"

definition kconfig :: "state \<Rightarrow> ServiceKopiaConfig" where
  "kconfig s = Config (Kopia s)"

definition upd_State :: "(ServiceKopiaState \<Rightarrow> ServiceKopiaState) \<Rightarrow> state \<Rightarrow> state" where
  "upd_State f s = s\<lparr>Kopia := (Kopia s)\<lparr>State := f (State (Kopia s))\<rparr>\<rparr>"

definition set_InProgress :: "bool \<Rightarrow> state \<Rightarrow> state" where
  "set_InProgress b = upd_State (\<lambda>st. st\<lparr>InProgress := b\<rparr>)"

definition set_Progress :: "int \<Rightarrow> state \<Rightarrow> state" where
  "set_Progress p s = (upd_State (\<lambda>st. st\<lparr>Progress := p\<rparr>) s)\<lparr>progress_log := progress_log s @ [p]\<rparr>"

definition set_LastStatus :: "string \<Rightarrow> state \<Rightarrow> state" where
  "set_LastStatus m = upd_State (\<lambda>st. st\<lparr>LastStatus := m\<rparr>)"

definition set_RepositoryConnected :: "bool \<Rightarrow> state \<Rightarrow> state" where
  "set_RepositoryConnected b = upd_State (\<lambda>st. st\<lparr>RepositoryConnected := b\<rparr>)"

definition set_LastBackup :: "time \<Rightarrow> state \<Rightarrow> state" where
  "set_LastBackup t = upd_State (\<lambda>st. st\<lparr>LastBackup := t\<rparr>)"

definition set_AvailableSnapshots :: "ServiceKopiaSnapshotInfo list \<Rightarrow> state \<Rightarrow> state" where
  "set_AvailableSnapshots xs = upd_State (\<lambda>st. st\<lparr>AvailableSnapshots := xs\<rparr>)"

definition set_Config :: "ServiceKopiaConfig \<Rightarrow> state \<Rightarrow> state" where
  "set_Config c s = s\<lparr>Kopia := (Kopia s)\<lparr>Config := c\<rparr>\<rparr>"

definition record_call :: "call \<Rightarrow> state \<Rightarrow> state" where
  "record_call c s = s\<lparr>calls := calls s @ [c]\<rparr>"

text \<open>\<open>subprocess.RunCommandContext(ctx, name, args...)\<close>: the output, or an error.\<close>

definition RunCommandContext :: "host \<Rightarrow> string \<Rightarrow> string list \<Rightarrow> state \<Rightarrow> (error + string) \<times> state" where
  "RunCommandContext h name args s =
     (run_command h (calls s) name args, record_call (RunCommand name args) s)"

section \<open>Retention\<close>

text \<open>
  \<open>applyRetention\<close> builds the argument list of \<open>kopia snapshot expire\<close> from the counts that
  are positive, and does not run the command when none was added.
\<close>

definition retentionArgs :: "ServiceKopiaRetentionPolicy \<Rightarrow> string list" where
  "retentionArgs r =
     [''snapshot'', ''expire'']
     @ (if KeepLatest r > 0 then [''--keep-latest'', Sprintf_d (KeepLatest r)] else [])
     @ (if KeepHourly r > 0 then [''--keep-hourly'', Sprintf_d (KeepHourly r)] else [])
     @ (if KeepDaily r > 0 then [''--keep-daily'', Sprintf_d (KeepDaily r)] else [])
     @ (if KeepWeekly r > 0 then [''--keep-weekly'', Sprintf_d (KeepWeekly r)] else [])
     @ (if KeepMonthly r > 0 then [''--keep-monthly'', Sprintf_d (KeepMonthly r)] else [])
     @ (if KeepAnnual r > 0 then [''--keep-annual'', Sprintf_d (KeepAnnual r)] else [])"

definition applyRetention :: "host \<Rightarrow> state \<Rightarrow> error option \<times> state" where
  "applyRetention h s =
     (let config = kconfig s;
          args = retentionArgs (Retention config)
      in if length args = 2 then (None, s)
         else (case RunCommandContext h ''kopia'' args s of
                 (Inl err, s) \<Rightarrow> (Some (Err (''failed to apply retention policy: '' @ Error err)), s)
               | (Inr _, s) \<Rightarrow> (None, s)))"

section \<open>Repository connection\<close>

definition validateBackendConfig :: "ServiceKopiaBackendConfig \<Rightarrow> error option" where
  "validateBackendConfig backend =
     (if Type backend = ''s3'' then
        (case S3 backend of
           None \<Rightarrow> Some (Err ''S3 backend configuration missing'')
         | Some s3 \<Rightarrow>
             if Endpoint s3 = '''' \<or> Bucket s3 = '''' \<or> AccessKey s3 = '''' \<or> SecretKey s3 = ''''
             then Some (Err ''S3 configuration incomplete'')
             else None)
      else Some (Err (''unsupported backend type: '' @ Type backend)))"

definition kopiaCacheDir :: string where
  "kopiaCacheDir = ''/var/lib/incus-os/kopia''"

definition ensureKopiaCacheDataset :: "host \<Rightarrow> state \<Rightarrow> error option \<times> state" where
  "ensureKopiaCacheDataset h s =
     (let datasetName = ''local/kopia-cache'';
          mountpoint = kopiaCacheDir;
          exists = dataset_exists h (calls s) datasetName;
          s = record_call (DatasetExists datasetName) s
      in if exists then (None, s)
         else
           (let properties = [(''mountpoint'', mountpoint), (''canmount'', ''on'')];
                err = create_dataset h (calls s) ''local'' ''kopia-cache'' properties;
                s = record_call (CreateDataset ''local'' ''kopia-cache'' properties) s
            in case err of
                 Some e \<Rightarrow> (Some (Err (''failed to create Kopia cache dataset: '' @ Error e)), s)
               | None \<Rightarrow> (None, s)))"

text \<open>
  The arguments shared by \<open>kopia repository create s3\<close> and \<open>kopia repository connect s3\<close>
  after the verb.
\<close>

definition s3Args :: "ServiceKopiaBackendS3 \<Rightarrow> string \<Rightarrow> string list" where
  "s3Args s3Config password =
     [''--bucket'', Bucket s3Config,
      ''--endpoint'', Endpoint s3Config,
      ''--disable-tls'',
      ''--access-key'', AccessKey s3Config,
      ''--secret-access-key'', SecretKey s3Config,
      ''--password'', password]
     @ (if Region s3Config \<noteq> '''' then [''--region'', Region s3Config] else [])"

text \<open>Reading a field of a nil \<open>s3Config\<close> panics, after the password check.\<close>

definition initS3Repository :: "host \<Rightarrow> ServiceKopiaBackendS3 option \<Rightarrow> state \<Rightarrow> error option \<times> state" where
  "initS3Repository h s3Config s =
     (let config = kconfig s
      in if RepositoryPassword config = ''''
         then (Some (Err ''repository_password is required for repository initialization''), s)
         else (case s3Config of
                 None \<Rightarrow> (Some (Panic ''nil pointer dereference''), s)
               | Some s3 \<Rightarrow>
                   (case RunCommandContext h ''kopia''
                           ([''repository'', ''create'', ''s3''] @ s3Args s3 (RepositoryPassword config)) s of
                      (Inl err, s) \<Rightarrow> (Some (Err (''failed to create repository: '' @ Error err)), s)
                    | (Inr _, s) \<Rightarrow> (None, s))))"

definition initRepository :: "host \<Rightarrow> ServiceKopiaBackendConfig \<Rightarrow> state \<Rightarrow> error option \<times> state" where
  "initRepository h backend s =
     (if Type backend = ''s3'' then initS3Repository h (S3 backend) s
      else (Some (Err (''unsupported backend type for init: '' @ Type backend)), s))"

definition connectS3Repository :: "host \<Rightarrow> ServiceKopiaBackendS3 option \<Rightarrow> state \<Rightarrow> error option \<times> state" where
  "connectS3Repository h s3Config s =
     (let config = kconfig s
      in if RepositoryPassword config = ''''
         then (Some (Err ''repository_password is required for repository connection''), s)
         else (case s3Config of
                 None \<Rightarrow> (Some (Panic ''nil pointer dereference''), s)
               | Some s3 \<Rightarrow>
                   (case RunCommandContext h ''kopia''
                           ([''repository'', ''connect'', ''s3''] @ s3Args s3 (RepositoryPassword config)) s of
                      (Inl err, s) \<Rightarrow> (Some (Err (''failed to connect repository: '' @ Error err)), s)
                    | (Inr _, s) \<Rightarrow> (None, s))))"

definition connectRepository :: "host \<Rightarrow> ServiceKopiaBackendConfig \<Rightarrow> state \<Rightarrow> error option \<times> state" where
  "connectRepository h backend s =
     (if Type backend = ''s3'' then connectS3Repository h (S3 backend) s
      else (Some (Err (''unsupported backend type for connect: '' @ Type backend)), s))"

text \<open>Any returned error of the connection attempt leads to the creation attempt.\<close>

definition connectOrInitRepository :: "host \<Rightarrow> ServiceKopiaBackendConfig \<Rightarrow> state \<Rightarrow> error option \<times> state" where
  "connectOrInitRepository h backend s =
     (case connectRepository h backend s of
        (None, s) \<Rightarrow> (None, s)
      | (Some (Panic p), s) \<Rightarrow> (Some (Panic p), s)
      | (Some (Err _), s) \<Rightarrow> initRepository h backend s)"

definition configure :: "host \<Rightarrow> state \<Rightarrow> error option \<times> state" where
  "configure h s =
     (let config = kconfig s
      in case validateBackendConfig (Backend config) of
           Some err \<Rightarrow>
             (let s = set_RepositoryConnected False s;
                  s = set_LastStatus (''Backend configuration invalid: '' @ Error err) s
              in (Some err, s))
         | None \<Rightarrow>
             (case ensureKopiaCacheDataset h s of
                (Some err, s) \<Rightarrow> (Some (Err (''failed to ensure Kopia cache dataset: '' @ Error err)), s)
              | (None, s) \<Rightarrow>
                  (let s = record_call (Setenv ''KOPIA_CACHE_DIRECTORY'' kopiaCacheDir) s
                   in case connectOrInitRepository h (Backend config) s of
                        (Some (Panic p), s) \<Rightarrow> (Some (Panic p), s)
                      | (Some (Err m), s) \<Rightarrow>
                          (let s = set_RepositoryConnected False s;
                               s = set_LastStatus (''Failed to connect or initialize repository: '' @ m) s
                           in (Some (Err m), s))
                      | (None, s) \<Rightarrow>
                          (let s = set_RepositoryConnected True s;
                               s = set_LastStatus ''Repository connected'' s
                           in (None, s)))))"

section \<open>Stop, Start, Get\<close>

definition Stop :: "state \<Rightarrow> error option \<times> state" where
  "Stop s =
     (if \<not> Enabled (kconfig s) then (None, s)
      else (let s = set_InProgress False s;
                s = set_Progress 0 s
            in (None, s)))"

definition Start :: "host \<Rightarrow> state \<Rightarrow> error option \<times> state" where
  "Start h s = (if \<not> Enabled (kconfig s) then (None, s) else configure h s)"

definition refreshSnapshots :: "host \<Rightarrow> state \<Rightarrow> error option \<times> state" where
  "refreshSnapshots h s =
     (case RunCommandContext h ''kopia'' [''snapshot'', ''list'', ''--json''] s of
        (Inl err, s) \<Rightarrow> (Some (Err (''failed to list snapshots: '' @ Error err)), s)
      | (Inr output, s) \<Rightarrow>
          (case json_Unmarshal h output of
             Inl err \<Rightarrow> (Some (Err (''failed to parse snapshot list: '' @ Error err)), s)
           | Inr apiSnapshots \<Rightarrow> (None, set_AvailableSnapshots apiSnapshots s)))"

text \<open>\<open>Get\<close> returns the service record; a failed refresh is only logged.\<close>

definition Get :: "host \<Rightarrow> state \<Rightarrow> ServiceKopia \<times> state" where
  "Get h s =
     (let s = (if Enabled (kconfig s) \<and> RepositoryConnected (kstate s)
               then snd (refreshSnapshots h s) else s)
      in (Kopia s, s))"

section \<open>Pool and snapshots\<close>

text \<open>
  \<open>strings.Split(s, sep)\<close> for a one-character separator: the pieces between the
  separators, in order; never empty. \<open>cur\<close> holds the piece being read, reversed.
\<close>

fun Split_from :: "string \<Rightarrow> char \<Rightarrow> string \<Rightarrow> string list" where
  "Split_from [] sep cur = [rev cur]"
| "Split_from (x # xs) sep cur =
     (if x = sep then rev cur # Split_from xs sep [] else Split_from xs sep (x # cur))"

definition Split :: "string \<Rightarrow> char \<Rightarrow> string list" where
  "Split s sep = Split_from s sep []"

definition Now :: "host \<Rightarrow> state \<Rightarrow> time \<times> state" where
  "Now h s = (time_now h (calls s), record_call TimeNow s)"

definition findLocalPool :: "host \<Rightarrow> state \<Rightarrow> (error + string) \<times> state" where
  "findLocalPool h s =
     (let exists = pool_exists h (calls s) ''local'';
          s = record_call (PoolExists ''local'') s
      in if \<not> exists then (Inl (Err ''local ZFS pool not found''), s)
         else (Inr ''local'', s))"

definition getPoolMountpoint :: "host \<Rightarrow> string \<Rightarrow> state \<Rightarrow> (error + string) \<times> state" where
  "getPoolMountpoint h poolName s =
     (case RunCommandContext h ''zfs'' [''get'', ''-H'', ''-o'', ''value'', ''mountpoint'', poolName] s of
        (Inl err, s) \<Rightarrow> (Inl (Err (''failed to get mountpoint: '' @ Error err)), s)
      | (Inr output, s) \<Rightarrow>
          (let mountpoint = strings_TrimSpace h output
           in if mountpoint = ''none'' \<or> mountpoint = ''legacy''
              then (Inr (filepath_Join h [''/'', poolName]), s)
              else (Inr mountpoint, s)))"

definition createZFSSnapshot :: "host \<Rightarrow> string \<Rightarrow> state \<Rightarrow> (error + string) \<times> state" where
  "createZFSSnapshot h poolName s =
     (let (now, s) = Now h s;
          snapshotName = poolName @ ''@kopia-'' @ Format_20060102_150405 now
      in case RunCommandContext h ''zfs'' [''snapshot'', snapshotName] s of
           (Inl err, s) \<Rightarrow> (Inl (Err (''failed to create ZFS snapshot: '' @ Error err)), s)
         | (Inr _, s) \<Rightarrow> (Inr snapshotName, s))"

definition destroyZFSSnapshot :: "host \<Rightarrow> string \<Rightarrow> state \<Rightarrow> error option \<times> state" where
  "destroyZFSSnapshot h snapshotName s =
     (case RunCommandContext h ''zfs'' [''destroy'', snapshotName] s of
        (Inl err, s) \<Rightarrow> (Some (Err (''failed to destroy ZFS snapshot: '' @ Error err)), s)
      | (Inr _, s) \<Rightarrow> (None, s))"

text \<open>
  \<open>strings.Split(snapshotName, "@")[1]\<close> is evaluated after the mountpoint is read, and
  panics when the name has no \<open>@\<close>.
\<close>

definition getSnapshotPath :: "host \<Rightarrow> string \<Rightarrow> state \<Rightarrow> (error + string) \<times> state" where
  "getSnapshotPath h snapshotName s =
     (let parts = Split snapshotName (CHR ''@'');
          poolName = hd parts
      in case getPoolMountpoint h poolName s of
           (Inl err, s) \<Rightarrow> (Inl err, s)
         | (Inr mountpoint, s) \<Rightarrow>
             if length parts < 2 then (Inl (Panic ''index out of range [1]''), s)
             else
               (let snapshotPath = filepath_Join h [mountpoint, ''.zfs'', ''snapshot'', parts ! 1];
                    err = os_stat h (calls s) snapshotPath;
                    s = record_call (Stat snapshotPath) s
                in case err of
                     Some e \<Rightarrow> (Inl (Err (''snapshot path does not exist: '' @ Error e)), s)
                   | None \<Rightarrow> (Inr snapshotPath, s)))"

section \<open>Maintenance windows\<close>

text \<open>The loop over the windows returns at the first active one.\<close>

fun anyWindowActive :: "host \<Rightarrow> window list \<Rightarrow> state \<Rightarrow> bool \<times> state" where
  "anyWindowActive h [] s = (False, s)"
| "anyWindowActive h (w # ws) s =
     (let active = is_currently_active h (calls s) w;
          s = record_call (IsCurrentlyActive w) s
      in if active then (True, s) else anyWindowActive h ws s)"

definition isInMaintenanceWindow :: "host \<Rightarrow> state \<Rightarrow> bool \<times> state" where
  "isInMaintenanceWindow h s =
     (if length (MaintenanceWindows s) = 0 then (True, s)
      else anyWindowActive h (MaintenanceWindows s) s)"

section \<open>The backup cycle\<close>

text \<open>
  Steps 4 to 6 of the backup, after the engine has taken its snapshot: retention, cleanup,
  completion. A failed retention run and a failed destroy are only logged; the function's
  variable \<open>err\<close> keeps the result of the destroy, and the function returns \<open>nil\<close>. The result
  is the returned error, the value of \<open>err\<close> at the return, and the state.
\<close>

definition performBackup_finish ::
    "host \<Rightarrow> string \<Rightarrow> state \<Rightarrow> error option \<times> error option \<times> state" where
  "performBackup_finish h snapshotName s =
     (let s = set_Progress 75 s;
          s = set_LastStatus ''Applying retention policies'' s;
          (err, s) = applyRetention h s;
          s = set_Progress 90 s;
          s = set_LastStatus ''Cleaning up ZFS snapshot'' s;
          (err, s) = destroyZFSSnapshot h snapshotName s;
          s = set_InProgress False s;
          s = set_Progress 100 s;
          (now, s) = Now h s;
          s = set_LastBackup now s;
          s = set_LastStatus ''Backup completed successfully'' s
      in (None, err, s))"

text \<open>
  The body of \<open>performBackup\<close> after its \<open>defer\<close> statement. It yields the returned error, the
  value the function's variable \<open>err\<close> holds at that return (the deferred closure reads the
  variable, not the returned value), and the state. When \<open>getSnapshotPath\<close> panics, \<open>err\<close> still
  holds the \<open>nil\<close> of the snapshot creation.
\<close>

definition performBackup_afterDefer ::
    "host \<Rightarrow> string \<Rightarrow> string \<Rightarrow> state \<Rightarrow> error option \<times> error option \<times> state" where
  "performBackup_afterDefer h poolName snapshotName s =
     (case getSnapshotPath h snapshotName s of
        (Inl (Panic p), s) \<Rightarrow> (Some (Panic p), None, s)
      | (Inl (Err m), s) \<Rightarrow>
          (let s = set_InProgress False s;
               s = set_LastStatus (''Failed to get snapshot path: '' @ m) s
           in (Some (Err m), Some (Err m), s))
      | (Inr snapshotPath, s) \<Rightarrow>
          (let s = set_Progress 25 s;
               s = set_LastStatus ''Creating Kopia snapshot'' s;
               (now, s) = Now h s;
               description = ''Backup of '' @ poolName @ '' pool at '' @ Format_RFC3339 now;
               args = [''snapshot'', ''create'', snapshotPath, ''--description'', description]
           in case RunCommandContext h ''kopia'' args s of
                (Inl err, s) \<Rightarrow>
                  (let s = set_InProgress False s;
                       s = set_LastStatus (''Failed to create Kopia snapshot: '' @ Error err) s
                   in (Some err, Some err, s))
              | (Inr _, s) \<Rightarrow> performBackup_finish h snapshotName s))"

text \<open>The deferred closure: \<open>if err != nil { _ = n.destroyZFSSnapshot(ctx, snapshotName) }\<close>.\<close>

definition performBackup_deferred ::
    "host \<Rightarrow> string \<Rightarrow> error option \<times> error option \<times> state \<Rightarrow> error option \<times> state" where
  "performBackup_deferred h snapshotName r =
     (case r of (ret, err, s) \<Rightarrow>
        if err \<noteq> None then (ret, snd (destroyZFSSnapshot h snapshotName s)) else (ret, s))"

text \<open>
  The cycle proper, from \<open>Mark as in progress\<close> on: steps 2 to 6 of the backup, entered once
  the preconditions hold and the pool is found.
\<close>

definition performBackup_cycle :: "host \<Rightarrow> string \<Rightarrow> state \<Rightarrow> error option \<times> state" where
  "performBackup_cycle h poolName s =
     (let s = set_InProgress True s;
          s = set_Progress 0 s;
          s = set_LastStatus ''Creating ZFS snapshot'' s
      in case createZFSSnapshot h poolName s of
           (Inl err, s) \<Rightarrow>
             (let s = set_InProgress False s;
                  s = set_LastStatus (''Failed to create snapshot: '' @ Error err) s
              in (Some err, s))
         | (Inr snapshotName, s) \<Rightarrow>
             performBackup_deferred h snapshotName
               (performBackup_afterDefer h poolName snapshotName s))"

definition performBackup :: "host \<Rightarrow> state \<Rightarrow> error option \<times> state" where
  "performBackup h s =
     (if \<not> RepositoryConnected (kstate s) then (Some (Err ''repository not connected''), s)
      else
        (let (inWindow, s) = isInMaintenanceWindow h s
         in if \<not> inWindow
            then (Some (Err ''outside maintenance window''), set_LastStatus ''Outside maintenance window'' s)
            else
              (case findLocalPool h s of
                 (Inl err, s) \<Rightarrow>
                   (Some err, set_LastStatus (''Failed to find local pool: '' @ Error err) s)
               | (Inr poolName, s) \<Rightarrow> performBackup_cycle h poolName s)))"

section \<open>The restore cycle\<close>

text \<open>
  The four loops of \<open>PerformRestore\<close>. A unit that fails to load is skipped; a failed stop
  or start is only logged. The service named \<open>kopia\<close> is skipped, and so is a service whose
  \<open>ShouldStart\<close> is false.
\<close>

fun stopApplications :: "host \<Rightarrow> (string \<times> string) list \<Rightarrow> state \<Rightarrow> state" where
  "stopApplications h [] s = s"
| "stopApplications h ((appName, version) # rest) s =
     (let err = load_application h (calls s) appName;
          s = record_call (LoadApplication appName) s
      in if err \<noteq> None then stopApplications h rest s
         else stopApplications h rest (record_call (ApplicationStop appName version) s))"

fun stopServices :: "host \<Rightarrow> string list \<Rightarrow> state \<Rightarrow> state" where
  "stopServices h [] s = s"
| "stopServices h (srvName # rest) s =
     (if srvName = ''kopia'' then stopServices h rest s
      else
        (let err = load_service h (calls s) srvName;
             s = record_call (LoadService srvName) s
         in if err \<noteq> None then stopServices h rest s
            else
              (let shouldStart = service_should_start h (calls s) srvName;
                   s = record_call (ServiceShouldStart srvName) s
               in if \<not> shouldStart then stopServices h rest s
                  else stopServices h rest (record_call (ServiceStop srvName) s))))"

fun startServices :: "host \<Rightarrow> string list \<Rightarrow> state \<Rightarrow> state" where
  "startServices h [] s = s"
| "startServices h (srvName # rest) s =
     (if srvName = ''kopia'' then startServices h rest s
      else
        (let err = load_service h (calls s) srvName;
             s = record_call (LoadService srvName) s
         in if err \<noteq> None then startServices h rest s
            else
              (let shouldStart = service_should_start h (calls s) srvName;
                   s = record_call (ServiceShouldStart srvName) s
               in if \<not> shouldStart then startServices h rest s
                  else startServices h rest (record_call (ServiceStart srvName) s))))"

fun startApplications :: "host \<Rightarrow> (string \<times> string) list \<Rightarrow> state \<Rightarrow> state" where
  "startApplications h [] s = s"
| "startApplications h ((appName, version) # rest) s =
     (let err = load_application h (calls s) appName;
          s = record_call (LoadApplication appName) s
      in if err \<noteq> None then startApplications h rest s
         else startApplications h rest (record_call (ApplicationStart appName version) s))"

definition restoreSnapshot :: "host \<Rightarrow> string \<Rightarrow> string \<Rightarrow> state \<Rightarrow> error option \<times> state" where
  "restoreSnapshot h snapshotID targetPath s =
     (case RunCommandContext h ''kopia'' [''snapshot'', ''restore'', snapshotID, targetPath] s of
        (Inl err, s) \<Rightarrow> (Some (Err (''failed to restore snapshot: '' @ Error err)), s)
      | (Inr _, s) \<Rightarrow> (None, s))"

definition applyRestoredData :: "host \<Rightarrow> string \<Rightarrow> string \<Rightarrow> state \<Rightarrow> error option \<times> state" where
  "applyRestoredData h tempPath mountpoint s =
     (case RunCommandContext h ''rsync'' [''-a'', ''--delete'', tempPath @ ''/'', mountpoint @ ''/''] s of
        (Inl err, s) \<Rightarrow> (Some (Err (''failed to apply restored data: '' @ Error err)), s)
      | (Inr _, s) \<Rightarrow> (None, s))"

text \<open>Stop all applications, then all services in the reverse of the startup order.\<close>

definition PerformRestore_stopAll :: "host \<Rightarrow> state \<Rightarrow> state" where
  "PerformRestore_stopAll h s =
     (let s = stopApplications h (Applications s) s;
          serviceNames = rev (supported_services h (calls s));
          s = record_call SupportedServices s
      in stopServices h serviceNames s)"

text \<open>Start all services in the startup order, then all applications.\<close>

definition PerformRestore_startAll :: "host \<Rightarrow> state \<Rightarrow> state" where
  "PerformRestore_startAll h s =
     (let serviceNames = supported_services h (calls s);
          s = record_call SupportedServices s;
          s = startServices h serviceNames s
      in startApplications h (Applications s) s)"

text \<open>
  The body of \<open>PerformRestore\<close> after \<open>defer os.RemoveAll(tempRestorePath)\<close>: restore into the
  temporary directory, apply, restart.
\<close>

definition PerformRestore_afterDefer ::
    "host \<Rightarrow> string \<Rightarrow> string \<Rightarrow> string \<Rightarrow> state \<Rightarrow> error option \<times> state" where
  "PerformRestore_afterDefer h snapshotID mountpoint tempRestorePath s =
     (let s = set_Progress 50 s;
          s = set_LastStatus ''Restoring snapshot'' s
      in case restoreSnapshot h snapshotID tempRestorePath s of
           (Some err, s) \<Rightarrow>
             (let s = set_InProgress False s;
                  s = set_LastStatus (''Failed to restore snapshot: '' @ Error err) s
              in (Some err, s))
         | (None, s) \<Rightarrow>
             (let s = set_Progress 70 s;
                  s = set_LastStatus ''Applying restored data'' s
              in case applyRestoredData h tempRestorePath mountpoint s of
                   (Some err, s) \<Rightarrow>
                     (let s = set_InProgress False s;
                          s = set_LastStatus (''Failed to apply restored data: '' @ Error err) s
                      in (Some err, s))
                 | (None, s) \<Rightarrow>
                     (let s = set_Progress 80 s;
                          s = set_LastStatus ''Starting services'' s;
                          s = PerformRestore_startAll h s;
                          s = set_InProgress False s;
                          s = set_Progress 100 s;
                          s = set_LastStatus ''Restore completed successfully'' s
                      in (None, s))))"

text \<open>
  From \<open>Preparing restore location\<close> to the deferred removal of the temporary directory, which
  runs at every return that follows its \<open>defer\<close> statement.
\<close>

definition PerformRestore_stage :: "host \<Rightarrow> string \<Rightarrow> string \<Rightarrow> state \<Rightarrow> error option \<times> state" where
  "PerformRestore_stage h snapshotID poolName s =
     (let s = set_Progress 30 s;
          s = set_LastStatus ''Preparing restore location'' s
      in case getPoolMountpoint h poolName s of
           (Inl err, s) \<Rightarrow>
             (let s = set_InProgress False s;
                  s = set_LastStatus (''Failed to get pool mountpoint: '' @ Error err) s
              in (Some err, s))
         | (Inr mountpoint, s) \<Rightarrow>
             (let s = set_Progress 40 s;
                  s = set_LastStatus ''Clearing existing data'' s;
                  tempRestorePath = filepath_Join h [mountpoint, ''.kopia-restore-temp''];
                  err = os_mkdir_all h (calls s) tempRestorePath;
                  s = record_call (MkdirAll tempRestorePath) s
              in case err of
                   Some e \<Rightarrow>
                     (let s = set_InProgress False s;
                          s = set_LastStatus (''Failed to create temp restore path: '' @ Error e) s
                      in (Some e, s))
                 | None \<Rightarrow>
                     (let (ret, s) = PerformRestore_afterDefer h snapshotID mountpoint tempRestorePath s
                      in (ret, record_call (RemoveAll tempRestorePath) s))))"

text \<open>
  The cycle proper, from the first assignment to \<open>InProgress\<close> on. The name built for the
  safety snapshot is handed to \<open>createZFSSnapshot\<close> in the place of its \<open>poolName\<close>
  parameter.
\<close>

definition PerformRestore_cycle :: "host \<Rightarrow> string \<Rightarrow> string \<Rightarrow> state \<Rightarrow> error option \<times> state" where
  "PerformRestore_cycle h snapshotID poolName s =
     (let s = set_InProgress True s;
          s = set_Progress 0 s;
          s = set_LastStatus ''Stopping services'' s;
          s = PerformRestore_stopAll h s;
          s = set_Progress 20 s;
          s = set_LastStatus ''Creating safety snapshot'' s;
          (now, s) = Now h s;
          safetySnapshotName = poolName @ ''@before-restore-'' @ Format_20060102_150405 now
      in case createZFSSnapshot h safetySnapshotName s of
           (Inl err, s) \<Rightarrow>
             (let s = set_InProgress False s;
                  s = set_LastStatus (''Failed to create safety snapshot: '' @ Error err) s
              in (Some (Err (''failed to create safety snapshot: '' @ Error err)), s))
         | (Inr _, s) \<Rightarrow> PerformRestore_stage h snapshotID poolName s)"

definition PerformRestore :: "host \<Rightarrow> string \<Rightarrow> state \<Rightarrow> error option \<times> state" where
  "PerformRestore h snapshotID s =
     (if \<not> RepositoryConnected (kstate s) then (Some (Err ''repository not connected''), s)
      else
        (case findLocalPool h s of
           (Inl err, s) \<Rightarrow> (Some err, s)
         | (Inr poolName, s) \<Rightarrow> PerformRestore_cycle h snapshotID poolName s))"

section \<open>Update\<close>

text \<open>
  The request is an \<open>any\<close>: either a \<open>*api.ServiceKopia\<close> or a value of another type, given by
  the name \<open>%T\<close> prints.
\<close>

datatype request = KopiaRequest ServiceKopia | OtherRequest string

text \<open>
  The restore trigger of \<open>Update\<close>. It yields the error, the configuration \<open>newState.Config\<close>
  as it is afterwards (with the restore field emptied after a restore that returned no
  error), and the state.
\<close>

definition Update_restoreTrigger ::
    "host \<Rightarrow> ServiceKopia \<Rightarrow> ServiceKopiaConfig \<Rightarrow> state \<Rightarrow> error option \<times> ServiceKopiaConfig \<times> state" where
  "Update_restoreTrigger h oldState newConfig s =
     (if RestoreSnapshotID newConfig \<noteq> '''' \<and>
         RestoreSnapshotID newConfig \<noteq> RestoreSnapshotID (Config oldState)
      then (case PerformRestore h (RestoreSnapshotID newConfig) s of
              (Some err, s) \<Rightarrow> (Some err, newConfig, s)
            | (None, s) \<Rightarrow> (None, newConfig\<lparr>RestoreSnapshotID := ''''\<rparr>, s))
      else (None, newConfig, s))"

text \<open>The body of \<open>Update\<close> after \<open>defer n.state.Save()\<close>.\<close>

text \<open>The first step of \<open>Update\<close>: disable the service if requested.\<close>

definition Update_disable :: "ServiceKopia \<Rightarrow> ServiceKopia \<Rightarrow> state \<Rightarrow> error option \<times> state" where
  "Update_disable oldState newState s =
     (if Enabled (Config oldState) \<and> \<not> Enabled (Config newState) then Stop s else (None, s))"

definition Update_afterDefer :: "host \<Rightarrow> ServiceKopia \<Rightarrow> state \<Rightarrow> error option \<times> state" where
  "Update_afterDefer h newState s =
     (let oldState = Kopia s
      in case Update_disable oldState newState s of
           (Some err, s) \<Rightarrow> (Some err, s)
         | (None, s) \<Rightarrow>
             (case Update_restoreTrigger h oldState (Config newState) s of
                (Some err, _, s) \<Rightarrow> (Some err, s)
              | (None, newConfig, s) \<Rightarrow>
                  (let s = set_Config newConfig s
                   in case (if \<not> Enabled (Config oldState) \<and> Enabled newConfig then Start h s else (None, s)) of
                        (Some err, s) \<Rightarrow> (Some err, s)
                      | (None, s) \<Rightarrow>
                          if Enabled (kconfig s) then configure h s else (None, s))))"

definition Update :: "host \<Rightarrow> request \<Rightarrow> state \<Rightarrow> error option \<times> state" where
  "Update h req s =
     (case req of
        OtherRequest ty \<Rightarrow>
          (Some (Err (''request type '' @ [CHR 0x22] @ ty @ [CHR 0x22] @ '' isn'' @ [CHR 0x27] @ ''t expected ServiceKopia'')), s)
      | KopiaRequest newState \<Rightarrow>
          (let (ret, s) = Update_afterDefer h newState s
           in (ret, record_call StateSave s)))"

section \<open>Reachable states\<close>

text \<open>The zero value of the service record, in a daemon that has made no call yet.\<close>

definition zeroTime :: time where
  "zeroTime = \<lparr>Year = 1, Month = 1, Day = 1, Hour = 0, Minute = 0, Second = 0, ZoneOffset = 0\<rparr>"

definition zeroKopia :: ServiceKopia where
  "zeroKopia =
     \<lparr>State = \<lparr>RepositoryConnected = False, LastBackup = zeroTime, LastBackupWindow = '''',
               LastStatus = '''', InProgress = False, Progress = 0, AvailableSnapshots = []\<rparr>,
      Config = \<lparr>Enabled = False, RepositoryPassword = '''',
                Backend = \<lparr>Type = '''', S3 = None\<rparr>,
                Retention = \<lparr>KeepLatest = 0, KeepHourly = 0, KeepDaily = 0,
                             KeepWeekly = 0, KeepMonthly = 0, KeepAnnual = 0\<rparr>,
                BackupFrequency = '''', RestoreSnapshotID = ''''\<rparr>\<rparr>"

definition initial :: "(string \<times> string) list \<Rightarrow> window list \<Rightarrow> state" where
  "initial apps windows =
     \<lparr>Kopia = zeroKopia, Applications = apps, MaintenanceWindows = windows,
      calls = [], progress_log = []\<rparr>"

text \<open>
  The states the service is in between two operations, on a given host: it starts from the
  zero value, and each step is one of the service's entry points run to its return, or a
  change of the applications and windows made by the rest of the daemon.
\<close>

inductive reachable :: "host \<Rightarrow> state \<Rightarrow> bool" for h :: host where
  reachable_initial: "reachable h (initial apps windows)"
| reachable_Update: "reachable h s \<Longrightarrow> reachable h (snd (Update h req s))"
| reachable_performBackup: "reachable h s \<Longrightarrow> reachable h (snd (performBackup h s))"
| reachable_PerformRestore: "reachable h s \<Longrightarrow> reachable h (snd (PerformRestore h snapshotID s))"
| reachable_Stop: "reachable h s \<Longrightarrow> reachable h (snd (Stop s))"
| reachable_Start: "reachable h s \<Longrightarrow> reachable h (snd (Start h s))"
| reachable_Get: "reachable h s \<Longrightarrow> reachable h (snd (Get h s))"
| reachable_daemon:
    "reachable h s \<Longrightarrow> reachable h (s\<lparr>Applications := apps, MaintenanceWindows := windows\<rparr>)"

section \<open>Example hosts and states\<close>

text \<open>
  A host on which everything succeeds: the pool \<open>local\<close> is mounted at \<open>/local\<close>, the clock
  stands at noon of 2 January 2024 UTC, and two services are supported.
\<close>

definition noon :: time where
  "noon = \<lparr>Year = 2024, Month = 1, Day = 2, Hour = 12, Minute = 0, Second = 0, ZoneOffset = 0\<rparr>"

definition exampleJoin :: "string list \<Rightarrow> string" where
  "exampleJoin parts =
     (case filter (\<lambda>p. p \<noteq> []) parts of
        [] \<Rightarrow> []
      | p # ps \<Rightarrow> foldl (\<lambda>acc q. acc @ ''/'' @ q) p ps)"

definition exampleHost :: host where
  "exampleHost =
     \<lparr>run_command = (\<lambda>_ name args. if name = ''zfs'' \<and> take 1 args = [''get''] then Inr ''/local'' else Inr ''''),
      pool_exists = (\<lambda>_ _. True),
      dataset_exists = (\<lambda>_ _. True),
      create_dataset = (\<lambda>_ _ _ _. None),
      os_stat = (\<lambda>_ _. None),
      os_mkdir_all = (\<lambda>_ _. None),
      time_now = (\<lambda>_. noon),
      supported_services = (\<lambda>_. [''kopia'', ''ovn'']),
      load_service = (\<lambda>_ _. None),
      service_should_start = (\<lambda>_ _. True),
      load_application = (\<lambda>_ _. None),
      is_currently_active = (\<lambda>_ _. True),
      filepath_Join = exampleJoin,
      strings_TrimSpace = (\<lambda>x. x),
      json_Unmarshal = (\<lambda>_. Inr [])\<rparr>"

text \<open>The same host, with a backup engine whose \<open>kopia snapshot create\<close> fails.\<close>

definition engineFailsHost :: host where
  "engineFailsHost =
     exampleHost\<lparr>run_command := (\<lambda>cs name args.
        if name = ''kopia'' \<and> take 2 args = [''snapshot'', ''create''] then Inl (Err ''exit status 1'')
        else run_command exampleHost cs name args)\<rparr>"

definition exampleConfig :: ServiceKopiaConfig where
  "exampleConfig =
     \<lparr>Enabled = True, RepositoryPassword = ''secret'',
      Backend = \<lparr>Type = ''s3'',
                 S3 = Some \<lparr>Endpoint = ''s3.example.org'', Bucket = ''backups'',
                            AccessKey = ''key'', SecretKey = ''secret-key'', Region = ''''\<rparr>\<rparr>,
      Retention = \<lparr>KeepLatest = 0, KeepHourly = 0, KeepDaily = 7,
                   KeepWeekly = 0, KeepMonthly = 0, KeepAnnual = 0\<rparr>,
      BackupFrequency = '''', RestoreSnapshotID = ''''\<rparr>"

text \<open>An enabled service with a connected repository, at rest, and one installed application.\<close>

definition connectedState :: state where
  "connectedState =
     \<lparr>Kopia = \<lparr>State = \<lparr>RepositoryConnected = True, LastBackup = zeroTime, LastBackupWindow = '''',
                        LastStatus = ''Repository connected'', InProgress = False, Progress = 0,
                        AvailableSnapshots = []\<rparr>,
               Config = exampleConfig\<rparr>,
      Applications = [(''incus'', ''6.0'')], MaintenanceWindows = [],
      calls = [], progress_log = []\<rparr>"

text \<open>The same state with a cycle in flight: a backup that has reached its second checkpoint.\<close>

definition inFlightState :: state where
  "inFlightState =
     set_LastStatus ''Creating Kopia snapshot''
       (set_Progress 25 (set_Progress 0 (set_InProgress True connectedState)))"

text \<open>The same state on a host with one maintenance window, which is active.\<close>

definition windowState :: state where
  "windowState = connectedState\<lparr>MaintenanceWindows := [1]\<rparr>"

text \<open>
  A service whose repository is not connected and whose stored configuration holds a
  restore identifier.
\<close>

definition staleState :: state where
  "staleState =
     \<lparr>Kopia = \<lparr>State = \<lparr>RepositoryConnected = False, LastBackup = zeroTime, LastBackupWindow = '''',
                        LastStatus = ''Failed to connect or initialize repository: exit status 1'',
                        InProgress = False, Progress = 0, AvailableSnapshots = []\<rparr>,
               Config = exampleConfig\<lparr>RestoreSnapshotID := ''k100''\<rparr>\<rparr>,
      Applications = [(''incus'', ''6.0'')], MaintenanceWindows = [],
      calls = [], progress_log = []\<rparr>"

text \<open>Two requests: one that enables the service, one that asks for a restore.\<close>

definition enableRequest :: request where
  "enableRequest = KopiaRequest \<lparr>State = State zeroKopia, Config = exampleConfig\<rparr>"

definition restoreRequest :: request where
  "restoreRequest =
     KopiaRequest \<lparr>State = State zeroKopia, Config = exampleConfig\<lparr>RestoreSnapshotID := ''k123''\<rparr>\<rparr>"

text \<open>The state after the service was enabled on a host whose engine fails, and a backup ran.\<close>

definition failedBackupState :: state where
  "failedBackupState =
     snd (performBackup engineFailsHost (snd (Update engineFailsHost enableRequest (initial [] []))))"

section \<open>Notions used in the statements\<close>

text \<open>The state with its record of calls erased: what a call to the host leaves as it is.\<close>

definition core :: "state \<Rightarrow> state" where
  "core s = s\<lparr>calls := []\<rparr>"

text \<open>
  The values of \<open>Progress\<close> the service is left with between two operations, and the states
  in which no cycle is running.
\<close>

definition checkpoint :: "int \<Rightarrow> bool" where
  "checkpoint p \<longleftrightarrow> p \<in> {0, 20, 25, 30, 40, 50, 70, 100}"

definition at_rest :: "state \<Rightarrow> bool" where
  "at_rest s \<longleftrightarrow> \<not> InProgress (kstate s) \<and> checkpoint (Progress (kstate s))"

text \<open>
  Since the log was \<open>log\<close>, the values assigned to \<open>Progress\<close> never decreased, and none exceeds
  the present value.
\<close>

definition climbs :: "int list \<Rightarrow> state \<Rightarrow> bool" where
  "climbs log s \<longleftrightarrow>
     (\<exists>ps. progress_log s = log @ ps \<and> sorted ps \<and> (\<forall>p\<in>set ps. p \<le> Progress (kstate s)))"

text \<open>
  A backup has completed: the flags of step 6, and \<open>LastBackup\<close> is what the clock answered
  when it was read for the last time.
\<close>

definition completed :: "host \<Rightarrow> state \<Rightarrow> bool" where
  "completed h s \<longleftrightarrow>
     \<not> InProgress (kstate s) \<and> Progress (kstate s) = 100 \<and>
     LastStatus (kstate s) = ''Backup completed successfully'' \<and>
     (\<exists>cs rest. calls s = cs @ TimeNow # rest \<and> TimeNow \<notin> set rest \<and>
        LastBackup (kstate s) = time_now h cs)"

text \<open>
  Step 1 of the backup holds: the repository is connected, a maintenance window allows the
  backup, and the pool \<open>local\<close> exists when it is looked for.
\<close>

definition performBackup_preconditions :: "host \<Rightarrow> state \<Rightarrow> bool" where
  "performBackup_preconditions h s \<longleftrightarrow>
     RepositoryConnected (kstate s) \<and> fst (isInMaintenanceWindow h s) \<and>
     pool_exists h (calls (snd (isInMaintenanceWindow h s))) ''local''"

text \<open>What the creation of the transient snapshot answers in the backup started from \<open>s\<close>.\<close>

definition performBackup_snapshot :: "host \<Rightarrow> state \<Rightarrow> error + string" where
  "performBackup_snapshot h s =
     fst (createZFSSnapshot h ''local''
       (set_LastStatus ''Creating ZFS snapshot'' (set_Progress 0 (set_InProgress True
         (snd (findLocalPool h (snd (isInMaintenanceWindow h s))))))))"

text \<open>
  A backup was aborted with the error \<open>e\<close>: no cycle is in progress, and the status is the
  label of the failed step followed by the message of the error.
\<close>

definition aborted :: "error \<Rightarrow> state \<Rightarrow> bool" where
  "aborted e s \<longleftrightarrow>
     \<not> InProgress (kstate s) \<and>
     LastStatus (kstate s) \<in>
       {''Failed to create snapshot: '' @ Error e,
        ''Failed to get snapshot path: '' @ Error e,
        ''Failed to create Kopia snapshot: '' @ Error e}"

section \<open>Lemmas\<close>

lemmas setters = upd_State_def set_InProgress_def set_Progress_def set_LastStatus_def
  set_RepositoryConnected_def set_LastBackup_def set_AvailableSnapshots_def set_Config_def
  record_call_def kstate_def kconfig_def

subsection \<open>Setters\<close>

lemma kstate_set [simp]:
  "kstate (set_InProgress b s) = (kstate s)\<lparr>InProgress := b\<rparr>"
  "kstate (set_Progress p s) = (kstate s)\<lparr>Progress := p\<rparr>"
  "kstate (set_LastStatus m s) = (kstate s)\<lparr>LastStatus := m\<rparr>"
  "kstate (set_RepositoryConnected b s) = (kstate s)\<lparr>RepositoryConnected := b\<rparr>"
  "kstate (set_LastBackup t s) = (kstate s)\<lparr>LastBackup := t\<rparr>"
  "kstate (set_AvailableSnapshots xs s) = (kstate s)\<lparr>AvailableSnapshots := xs\<rparr>"
  "kstate (set_Config c s) = kstate s"
  "kstate (record_call k s) = kstate s"
  by (simp_all add: setters)

lemma kconfig_set [simp]:
  "kconfig (set_InProgress b s) = kconfig s"
  "kconfig (set_Progress p s) = kconfig s"
  "kconfig (set_LastStatus m s) = kconfig s"
  "kconfig (set_RepositoryConnected b s) = kconfig s"
  "kconfig (set_LastBackup t s) = kconfig s"
  "kconfig (set_AvailableSnapshots xs s) = kconfig s"
  "kconfig (set_Config c s) = c"
  "kconfig (record_call k s) = kconfig s"
  by (simp_all add: setters)

lemma progress_log_set [simp]:
  "progress_log (set_InProgress b s) = progress_log s"
  "progress_log (set_Progress p s) = progress_log s @ [p]"
  "progress_log (set_LastStatus m s) = progress_log s"
  "progress_log (set_RepositoryConnected b s) = progress_log s"
  "progress_log (set_LastBackup t s) = progress_log s"
  "progress_log (set_AvailableSnapshots xs s) = progress_log s"
  "progress_log (set_Config c s) = progress_log s"
  "progress_log (record_call k s) = progress_log s"
  by (simp_all add: setters)

lemma calls_set [simp]:
  "calls (set_InProgress b s) = calls s"
  "calls (set_Progress p s) = calls s"
  "calls (set_LastStatus m s) = calls s"
  "calls (set_RepositoryConnected b s) = calls s"
  "calls (set_LastBackup t s) = calls s"
  "calls (set_AvailableSnapshots xs s) = calls s"
  "calls (set_Config c s) = calls s"
  "calls (record_call k s) = calls s @ [k]"
  by (simp_all add: setters)

lemma Applications_set [simp]:
  "Applications (set_InProgress b s) = Applications s"
  "Applications (set_Progress p s) = Applications s"
  "Applications (set_LastStatus m s) = Applications s"
  "Applications (set_RepositoryConnected b s) = Applications s"
  "Applications (set_LastBackup t s) = Applications s"
  "Applications (set_AvailableSnapshots xs s) = Applications s"
  "Applications (set_Config c s) = Applications s"
  "Applications (record_call k s) = Applications s"
  by (simp_all add: setters)

lemma MaintenanceWindows_set [simp]:
  "MaintenanceWindows (set_InProgress b s) = MaintenanceWindows s"
  "MaintenanceWindows (set_Progress p s) = MaintenanceWindows s"
  "MaintenanceWindows (set_LastStatus m s) = MaintenanceWindows s"
  "MaintenanceWindows (set_RepositoryConnected b s) = MaintenanceWindows s"
  "MaintenanceWindows (set_LastBackup t s) = MaintenanceWindows s"
  "MaintenanceWindows (set_AvailableSnapshots xs s) = MaintenanceWindows s"
  "MaintenanceWindows (set_Config c s) = MaintenanceWindows s"
  "MaintenanceWindows (record_call k s) = MaintenanceWindows s"
  by (simp_all add: setters)

subsection \<open>Calls to the host change nothing but the record of calls\<close>

lemma core_eqD:
  assumes "core s' = core s"
  shows "kstate s' = kstate s" and "kconfig s' = kconfig s" and "progress_log s' = progress_log s"
    and "Applications s' = Applications s" and "MaintenanceWindows s' = MaintenanceWindows s"
proof -
  have "s'\<lparr>calls := []\<rparr> = s\<lparr>calls := []\<rparr>" using assms by (simp add: core_def)
  then have k: "Kopia s' = Kopia s" and p: "progress_log s' = progress_log s"
    and a: "Applications s' = Applications s" and m: "MaintenanceWindows s' = MaintenanceWindows s"
    by (metis state.select_convs state.surjective state.update_convs)+
  show "kstate s' = kstate s" "kconfig s' = kconfig s" using k by (simp_all add: kstate_def kconfig_def)
  show "progress_log s' = progress_log s" by (rule p)
  show "Applications s' = Applications s" by (rule a)
  show "MaintenanceWindows s' = MaintenanceWindows s" by (rule m)
qed

lemma core_record_call [simp]: "core (record_call k s) = core s"
  by (simp add: core_def record_call_def)

lemma RunCommandContext_core [simp]: "core (snd (RunCommandContext h n a s)) = core s"
  by (simp add: RunCommandContext_def)

lemma Now_core [simp]: "core (snd (Now h s)) = core s"
  by (simp add: Now_def)

lemma findLocalPool_core [simp]: "core (snd (findLocalPool h s)) = core s"
  by (simp add: findLocalPool_def Let_def)

lemma getPoolMountpoint_core [simp]: "core (snd (getPoolMountpoint h p s)) = core s"
  by (simp add: getPoolMountpoint_def Let_def case_prod_beta split: sum.splits)

lemma createZFSSnapshot_core [simp]: "core (snd (createZFSSnapshot h p s)) = core s"
  by (simp add: createZFSSnapshot_def Let_def case_prod_beta split: sum.splits)

lemma destroyZFSSnapshot_core [simp]: "core (snd (destroyZFSSnapshot h p s)) = core s"
  by (simp add: destroyZFSSnapshot_def Let_def case_prod_beta split: sum.splits)

lemma getSnapshotPath_core [simp]: "core (snd (getSnapshotPath h p s)) = core s"
  by (simp add: getSnapshotPath_def Let_def case_prod_beta split: sum.splits option.splits)

lemma anyWindowActive_core [simp]: "core (snd (anyWindowActive h ws s)) = core s"
  by (induction ws arbitrary: s) (simp_all add: Let_def)

lemma isInMaintenanceWindow_core [simp]: "core (snd (isInMaintenanceWindow h s)) = core s"
  by (simp add: isInMaintenanceWindow_def)

lemma applyRetention_core [simp]: "core (snd (applyRetention h s)) = core s"
  by (simp add: applyRetention_def Let_def case_prod_beta split: sum.splits)

lemma stopApplications_core [simp]: "core (stopApplications h as s) = core s"
  by (induction as arbitrary: s) (auto simp: Let_def)

lemma startApplications_core [simp]: "core (startApplications h as s) = core s"
  by (induction as arbitrary: s) (auto simp: Let_def)

lemma stopServices_core [simp]: "core (stopServices h xs s) = core s"
  by (induction xs arbitrary: s) (auto simp: Let_def)

lemma startServices_core [simp]: "core (startServices h xs s) = core s"
  by (induction xs arbitrary: s) (auto simp: Let_def)

lemma restoreSnapshot_core [simp]: "core (snd (restoreSnapshot h i p s)) = core s"
  by (simp add: restoreSnapshot_def case_prod_beta split: sum.splits)

lemma applyRestoredData_core [simp]: "core (snd (applyRestoredData h p m s)) = core s"
  by (simp add: applyRestoredData_def case_prod_beta split: sum.splits)

lemma ensureKopiaCacheDataset_core [simp]: "core (snd (ensureKopiaCacheDataset h s)) = core s"
  by (simp add: ensureKopiaCacheDataset_def Let_def split: option.splits)

lemma connectS3Repository_core [simp]: "core (snd (connectS3Repository h c s)) = core s"
  by (simp add: connectS3Repository_def Let_def case_prod_beta split: option.splits sum.splits)

lemma initS3Repository_core [simp]: "core (snd (initS3Repository h c s)) = core s"
  by (simp add: initS3Repository_def Let_def case_prod_beta split: option.splits sum.splits)

lemma connectOrInitRepository_core [simp]: "core (snd (connectOrInitRepository h b s)) = core s"
  by (simp add: connectOrInitRepository_def connectRepository_def initRepository_def
      case_prod_beta split: option.splits error.splits)

lemma PerformRestore_stopAll_core [simp]: "core (PerformRestore_stopAll h s) = core s"
  by (simp add: PerformRestore_stopAll_def Let_def)

lemma PerformRestore_startAll_core [simp]: "core (PerformRestore_startAll h s) = core s"
  by (simp add: PerformRestore_startAll_def Let_def)

lemmas host_frames [simp] =
  core_eqD [OF PerformRestore_stopAll_core] core_eqD [OF PerformRestore_startAll_core]
  core_eqD [OF stopApplications_core] core_eqD [OF startApplications_core]
  core_eqD [OF stopServices_core] core_eqD [OF startServices_core]
  core_eqD [OF restoreSnapshot_core] core_eqD [OF applyRestoredData_core]
  core_eqD [OF ensureKopiaCacheDataset_core] core_eqD [OF connectOrInitRepository_core]
  core_eqD [OF RunCommandContext_core] core_eqD [OF Now_core] core_eqD [OF findLocalPool_core]
  core_eqD [OF getPoolMountpoint_core] core_eqD [OF createZFSSnapshot_core]
  core_eqD [OF destroyZFSSnapshot_core] core_eqD [OF getSnapshotPath_core]
  core_eqD [OF isInMaintenanceWindow_core] core_eqD [OF applyRetention_core]

subsection \<open>No panic\<close>

lemma Split_from_nonempty: "Split_from xs sep cur \<noteq> []"
  by (induction xs arbitrary: cur) auto

lemma Split_from_length: "sep \<in> set xs \<Longrightarrow> 2 \<le> length (Split_from xs sep cur)"
proof (induction xs arbitrary: cur)
  case Nil
  then show ?case by simp
next
  case (Cons x xs)
  show ?case
  proof (cases "x = sep")
    case True
    have "1 \<le> length (Split_from xs sep [])"
      using Split_from_nonempty [of xs sep "[]"] by (cases "Split_from xs sep []") auto
    with True show ?thesis by simp
  next
    case False
    with Cons show ?thesis by simp
  qed
qed

lemma Split_length: "sep \<in> set xs \<Longrightarrow> 2 \<le> length (Split xs sep)"
  by (simp add: Split_def Split_from_length)

lemma createZFSSnapshot_name:
  "fst (createZFSSnapshot h p s) = Inr name \<Longrightarrow> CHR ''@'' \<in> set name"
  by (auto simp: createZFSSnapshot_def Let_def case_prod_beta split: sum.splits)

lemma getSnapshotPath_no_panic:
  "CHR ''@'' \<in> set name \<Longrightarrow> fst (getSnapshotPath h name s) \<noteq> Inl (Panic p)"
  by (auto simp: getSnapshotPath_def getPoolMountpoint_def Let_def case_prod_beta leD
      dest!: Split_length split: sum.splits option.splits)




subsection \<open>What each operation leaves alone\<close>

lemma configure_frame [simp]:
  "kconfig (snd (configure h s)) = kconfig s"
  "progress_log (snd (configure h s)) = progress_log s"
  "InProgress (kstate (snd (configure h s))) = InProgress (kstate s)"
  "Progress (kstate (snd (configure h s))) = Progress (kstate s)"
  by (simp_all add: configure_def Let_def case_prod_beta split: option.splits error.splits)

lemma Start_frame [simp]:
  "kconfig (snd (Start h s)) = kconfig s"
  "progress_log (snd (Start h s)) = progress_log s"
  "InProgress (kstate (snd (Start h s))) = InProgress (kstate s)"
  "Progress (kstate (snd (Start h s))) = Progress (kstate s)"
  by (simp_all add: Start_def)

lemma Stop_frame [simp]:
  "kconfig (snd (Stop s)) = kconfig s"
  "calls (snd (Stop s)) = calls s"
  "fst (Stop s) = None"
  by (simp_all add: Stop_def Let_def)

lemma Get_frame [simp]:
  "kconfig (snd (Get h s)) = kconfig s"
  "progress_log (snd (Get h s)) = progress_log s"
  "InProgress (kstate (snd (Get h s))) = InProgress (kstate s)"
  "Progress (kstate (snd (Get h s))) = Progress (kstate s)"
  by (simp_all add: Get_def Let_def refreshSnapshots_def case_prod_beta split: sum.splits)

lemma performBackup_finish_kconfig [simp]:
  "kconfig (snd (snd (performBackup_finish h n s))) = kconfig s"
  "LastBackupWindow (kstate (snd (snd (performBackup_finish h n s)))) = LastBackupWindow (kstate s)"
  by (simp_all add: performBackup_finish_def Let_def case_prod_beta)

lemma performBackup_afterDefer_kconfig [simp]:
  "kconfig (snd (snd (performBackup_afterDefer h p n s))) = kconfig s"
  "LastBackupWindow (kstate (snd (snd (performBackup_afterDefer h p n s)))) = LastBackupWindow (kstate s)"
  by (simp_all add: performBackup_afterDefer_def Let_def case_prod_beta split: sum.splits error.splits)

lemma performBackup_deferred_kconfig [simp]:
  "kconfig (snd (performBackup_deferred h n r)) = kconfig (snd (snd r))"
  "LastBackupWindow (kstate (snd (performBackup_deferred h n r))) = LastBackupWindow (kstate (snd (snd r)))"
  by (simp_all add: performBackup_deferred_def case_prod_beta)

lemma performBackup_cycle_kconfig [simp]:
  "kconfig (snd (performBackup_cycle h p s)) = kconfig s"
  "LastBackupWindow (kstate (snd (performBackup_cycle h p s))) = LastBackupWindow (kstate s)"
  by (simp_all add: performBackup_cycle_def Let_def case_prod_beta split: sum.splits)

lemma performBackup_kconfig [simp]:
  "kconfig (snd (performBackup h s)) = kconfig s"
  "LastBackupWindow (kstate (snd (performBackup h s))) = LastBackupWindow (kstate s)"
  by (simp_all add: performBackup_def Let_def case_prod_beta split: sum.splits)

lemma PerformRestore_afterDefer_kconfig [simp]:
  "kconfig (snd (PerformRestore_afterDefer h i m p s)) = kconfig s"
  by (simp add: PerformRestore_afterDefer_def Let_def case_prod_beta split: option.splits)

lemma PerformRestore_stage_kconfig [simp]:
  "kconfig (snd (PerformRestore_stage h i p s)) = kconfig s"
  by (simp add: PerformRestore_stage_def Let_def case_prod_beta split: sum.splits option.splits)

lemma PerformRestore_cycle_kconfig [simp]:
  "kconfig (snd (PerformRestore_cycle h i p s)) = kconfig s"
  by (simp add: PerformRestore_cycle_def Let_def case_prod_beta split: sum.splits)

lemma PerformRestore_kconfig [simp]: "kconfig (snd (PerformRestore h i s)) = kconfig s"
  by (simp add: PerformRestore_def case_prod_beta split: sum.splits)

subsection \<open>At rest\<close>

lemma checkpoint_simps [simp]:
  "checkpoint 0" "checkpoint 20" "checkpoint 25" "checkpoint 30" "checkpoint 40"
  "checkpoint 50" "checkpoint 70" "checkpoint 100"
  by (simp_all add: checkpoint_def)

lemma at_restD: "at_rest s \<Longrightarrow> \<not> InProgress (kstate s)" "at_rest s \<Longrightarrow> checkpoint (Progress (kstate s))"
  by (simp_all add: at_rest_def)

lemma at_rest_frame:
  "at_rest s \<Longrightarrow> InProgress (kstate s') = InProgress (kstate s) \<Longrightarrow>
   Progress (kstate s') = Progress (kstate s) \<Longrightarrow> at_rest s'"
  by (simp add: at_rest_def)

lemma Stop_at_rest: "at_rest s \<Longrightarrow> at_rest (snd (Stop s))"
  by (simp add: Stop_def at_rest_def)

lemma performBackup_finish_at_rest: "at_rest (snd (snd (performBackup_finish h n s)))"
  by (simp add: performBackup_finish_def Let_def case_prod_beta at_rest_def)

lemma performBackup_afterDefer_at_rest:
  assumes "CHR ''@'' \<in> set name" "Progress (kstate s) = 0"
  shows "at_rest (snd (performBackup_deferred h name (performBackup_afterDefer h pool name s)))"
  using assms getSnapshotPath_no_panic [of name h s]
  by (simp add: performBackup_afterDefer_def performBackup_deferred_def Let_def case_prod_beta
      at_rest_def at_restD [OF performBackup_finish_at_rest] split: sum.splits error.splits)

lemma performBackup_cycle_at_rest: "at_rest (snd (performBackup_cycle h p s))"
proof (cases "fst (createZFSSnapshot h p (set_LastStatus ''Creating ZFS snapshot'' (set_Progress 0 (set_InProgress True s))))")
  case (Inl e)
  then show ?thesis
    by (simp add: performBackup_cycle_def Let_def case_prod_beta at_rest_def)
next
  case (Inr name)
  then show ?thesis
    using createZFSSnapshot_name [OF Inr]
    by (simp add: performBackup_cycle_def Let_def case_prod_beta performBackup_afterDefer_at_rest)
qed

lemma performBackup_at_rest: "at_rest s \<Longrightarrow> at_rest (snd (performBackup h s))"
  by (simp add: performBackup_def Let_def case_prod_beta performBackup_cycle_at_rest at_rest_frame
      split: sum.splits)

lemma PerformRestore_afterDefer_at_rest:
  "at_rest (snd (PerformRestore_afterDefer h i m p s))"
  by (simp add: PerformRestore_afterDefer_def Let_def case_prod_beta at_rest_def split: option.splits)

lemma PerformRestore_stage_at_rest: "at_rest (snd (PerformRestore_stage h i p s))"
  by (simp add: PerformRestore_stage_def Let_def case_prod_beta at_rest_def
      at_restD [OF PerformRestore_afterDefer_at_rest] split: sum.splits option.splits)

lemma PerformRestore_cycle_at_rest: "at_rest (snd (PerformRestore_cycle h i p s))"
  by (simp add: PerformRestore_cycle_def Let_def case_prod_beta at_rest_def
      at_restD [OF PerformRestore_stage_at_rest] split: sum.splits)

lemma PerformRestore_at_rest: "at_rest s \<Longrightarrow> at_rest (snd (PerformRestore h i s))"
  by (simp add: PerformRestore_def case_prod_beta PerformRestore_cycle_at_rest at_rest_frame
      split: sum.splits)

subsection \<open>Progress climbs within a cycle\<close>

lemma climbs_refl [simp]: "climbs (progress_log s) s"
  by (simp add: climbs_def)

lemma climbs_first: "progress_log s = log \<Longrightarrow> climbs log (set_Progress p s)"
  unfolding climbs_def by (rule exI [of _ "[p]"]) simp

lemma climbs_set_Progress:
  assumes "climbs log s" and "Progress (kstate s) \<le> p"
  shows "climbs log (set_Progress p s)"
proof -
  from assms(1) obtain ps where ps: "progress_log s = log @ ps" "sorted ps"
    "\<forall>q\<in>set ps. q \<le> Progress (kstate s)"
    by (auto simp: climbs_def)
  have "progress_log (set_Progress p s) = log @ (ps @ [p])"
    using ps(1) by simp
  moreover have "sorted (ps @ [p])"
    using ps(2,3) assms(2) by (auto simp: sorted_append)
  moreover have "\<forall>q\<in>set (ps @ [p]). q \<le> Progress (kstate (set_Progress p s))"
    using ps(3) assms(2) by auto
  ultimately show ?thesis
    unfolding climbs_def by blast
qed

lemma climbs_cong:
  "progress_log s' = progress_log s \<Longrightarrow> Progress (kstate s') = Progress (kstate s) \<Longrightarrow>
   climbs log s' = climbs log s"
  by (simp add: climbs_def)

lemma climbs_set [simp]:
  "climbs log (set_InProgress b s) = climbs log s"
  "climbs log (set_LastStatus m s) = climbs log s"
  "climbs log (set_LastBackup t s) = climbs log s"
  "climbs log (record_call k s) = climbs log s"
  by (rule climbs_cong; simp)+

lemma climbs_core:
  assumes "core s' = core s" shows "climbs log s' = climbs log s"
  by (rule climbs_cong) (simp_all only: core_eqD [OF assms])

lemmas climbs_host [simp] =
  climbs_core [OF RunCommandContext_core] climbs_core [OF Now_core]
  climbs_core [OF findLocalPool_core] climbs_core [OF getPoolMountpoint_core]
  climbs_core [OF createZFSSnapshot_core] climbs_core [OF destroyZFSSnapshot_core]
  climbs_core [OF getSnapshotPath_core] climbs_core [OF isInMaintenanceWindow_core]
  climbs_core [OF applyRetention_core] climbs_core [OF PerformRestore_stopAll_core]
  climbs_core [OF PerformRestore_startAll_core] climbs_core [OF restoreSnapshot_core]
  climbs_core [OF applyRestoredData_core]

lemma climbsD: "climbs (progress_log s) s' \<Longrightarrow> \<exists>ps. progress_log s' = progress_log s @ ps \<and> sorted ps"
  by (auto simp: climbs_def)

lemma performBackup_finish_climbs:
  "climbs log s \<Longrightarrow> Progress (kstate s) \<le> 75 \<Longrightarrow> climbs log (snd (snd (performBackup_finish h n s)))"
  by (simp add: performBackup_finish_def Let_def case_prod_beta climbs_set_Progress)

lemma performBackup_afterDefer_climbs:
  "climbs log s \<Longrightarrow> Progress (kstate s) \<le> 25 \<Longrightarrow>
   climbs log (snd (snd (performBackup_afterDefer h p n s)))"
  by (simp add: performBackup_afterDefer_def Let_def case_prod_beta climbs_set_Progress
      performBackup_finish_climbs split: sum.splits error.splits)

lemma performBackup_deferred_climbs [simp]:
  "climbs log (snd (performBackup_deferred h n r)) = climbs log (snd (snd r))"
  by (simp add: performBackup_deferred_def case_prod_beta)

lemma performBackup_cycle_climbs: "climbs (progress_log s) (snd (performBackup_cycle h p s))"
  by (simp add: performBackup_cycle_def Let_def case_prod_beta climbs_first
      performBackup_afterDefer_climbs split: sum.splits)

lemma performBackup_climbs: "climbs (progress_log s) (snd (performBackup h s))"
proof -
  have "climbs (progress_log s) (snd (performBackup_cycle h p x))" if "core x = core s" for p x
    using performBackup_cycle_climbs [of x h p] core_eqD(3) [OF that] by simp
  then show ?thesis
    by (simp add: performBackup_def Let_def case_prod_beta split: sum.splits)
qed

lemma PerformRestore_afterDefer_climbs:
  "climbs log s \<Longrightarrow> Progress (kstate s) \<le> 50 \<Longrightarrow>
   climbs log (snd (PerformRestore_afterDefer h i m p s))"
  by (simp add: PerformRestore_afterDefer_def Let_def case_prod_beta climbs_set_Progress
      split: option.splits)

lemma PerformRestore_stage_climbs:
  "climbs log s \<Longrightarrow> Progress (kstate s) \<le> 30 \<Longrightarrow>
   climbs log (snd (PerformRestore_stage h i p s))"
  by (simp add: PerformRestore_stage_def Let_def case_prod_beta climbs_set_Progress
      PerformRestore_afterDefer_climbs split: sum.splits option.splits)

lemma PerformRestore_cycle_climbs: "climbs (progress_log s) (snd (PerformRestore_cycle h i p s))"
  by (simp add: PerformRestore_cycle_def Let_def case_prod_beta climbs_first climbs_set_Progress
      PerformRestore_stage_climbs split: sum.splits)

lemma PerformRestore_climbs: "climbs (progress_log s) (snd (PerformRestore h i s))"
proof -
  have "climbs (progress_log s) (snd (PerformRestore_cycle h i p x))" if "core x = core s" for p x
    using PerformRestore_cycle_climbs [of x h i p] core_eqD(3) [OF that] by simp
  then show ?thesis
    by (simp add: PerformRestore_def case_prod_beta split: sum.splits)
qed

subsection \<open>Update and the reachable states\<close>

lemma Update_disable_at_rest: "at_rest s \<Longrightarrow> at_rest (snd (Update_disable old new s))"
  by (simp add: Update_disable_def Stop_at_rest)

lemma Update_disable_frame [simp]:
  "kconfig (snd (Update_disable old new s)) = kconfig s"
  "calls (snd (Update_disable old new s)) = calls s"
  "fst (Update_disable old new s) = None"
  by (simp_all add: Update_disable_def)

lemma Update_restoreTrigger_at_rest:
  "at_rest s \<Longrightarrow> at_rest (snd (snd (Update_restoreTrigger h old new s)))"
  by (simp add: Update_restoreTrigger_def case_prod_beta PerformRestore_at_rest split: option.splits)

lemma at_rest_set_Config [simp]: "at_rest (set_Config c s) = at_rest s"
  by (simp add: at_rest_def)

lemma Update_afterDefer_at_rest: "at_rest s \<Longrightarrow> at_rest (snd (Update_afterDefer h new s))"
proof -
  assume a: "at_rest s"
  let ?s1 = "snd (Update_disable (Kopia s) new s)"
  let ?r = "Update_restoreTrigger h (Kopia s) (Config new) ?s1"
  have r: "at_rest (snd (snd ?r))"
    using a by (simp add: Update_disable_at_rest Update_restoreTrigger_at_rest)
  have f: "\<And>x y. at_rest x \<Longrightarrow> InProgress (kstate y) = InProgress (kstate x) \<Longrightarrow>
      Progress (kstate y) = Progress (kstate x) \<Longrightarrow> at_rest y"
    by (rule at_rest_frame)
  show ?thesis
    using r
    by (auto simp: Update_afterDefer_def Let_def case_prod_beta split: option.splits
        intro!: f [OF r] f [of "set_Config c x" for c x])
qed

lemma at_rest_record_call [simp]: "at_rest (record_call k s) = at_rest s"
  by (simp add: at_rest_def)

lemma Update_at_rest: "at_rest s \<Longrightarrow> at_rest (snd (Update h req s))"
  by (simp add: Update_def case_prod_beta Update_afterDefer_at_rest split: request.splits)

lemma Start_at_rest: "at_rest s \<Longrightarrow> at_rest (snd (Start h s))"
  by (erule at_rest_frame) simp_all

lemma Get_at_rest: "at_rest s \<Longrightarrow> at_rest (snd (Get h s))"
  by (erule at_rest_frame) simp_all

lemma initial_at_rest: "at_rest (initial apps windows)"
  by (simp add: at_rest_def initial_def zeroKopia_def kstate_def)

lemma reachable_at_rest: "reachable h s \<Longrightarrow> at_rest s"
proof (induction rule: reachable.induct)
  case (reachable_daemon s apps windows)
  then show ?case by (simp add: at_rest_def kstate_def)
qed (simp_all add: initial_at_rest Update_at_rest performBackup_at_rest PerformRestore_at_rest
    Stop_at_rest Start_at_rest Get_at_rest)

subsection \<open>Evaluation on the example hosts\<close>

lemmas model_defs = performBackup_def performBackup_cycle_def performBackup_afterDefer_def
  performBackup_finish_def performBackup_deferred_def isInMaintenanceWindow_def findLocalPool_def
  createZFSSnapshot_def destroyZFSSnapshot_def getSnapshotPath_def getPoolMountpoint_def
  applyRetention_def retentionArgs_def RunCommandContext_def Now_def
  PerformRestore_def PerformRestore_cycle_def PerformRestore_stage_def PerformRestore_afterDefer_def
  PerformRestore_stopAll_def PerformRestore_startAll_def restoreSnapshot_def applyRestoredData_def
  Update_def Update_afterDefer_def Update_disable_def Update_restoreTrigger_def
  Stop_def Start_def configure_def validateBackendConfig_def ensureKopiaCacheDataset_def
  connectOrInitRepository_def connectRepository_def connectS3Repository_def
  initRepository_def initS3Repository_def s3Args_def kopiaCacheDir_def

lemmas example_defs = exampleHost_def engineFailsHost_def connectedState_def exampleConfig_def
  exampleJoin_def initial_def zeroKopia_def enableRequest_def
  restoreRequest_def inFlightState_def windowState_def staleState_def

lemmas format_defs = Format_20060102_150405_def Format_RFC3339_def appendInt_def Sprintf_d_def
  digits.simps char_of_def bit_Suc_0_iff

lemma Format_noon:
  "Format_20060102_150405 noon = ''20240102-120000''"
  "Format_RFC3339 noon = ''2024-01-02T12:00:00Z''"
  by (simp_all add: format_defs noon_def)

lemma Sprintf_d_7: "Sprintf_d 7 = ''7''"
  by (simp add: format_defs)

subsection \<open>The example runs\<close>

lemma enabled_state:
  "RepositoryConnected (kstate (snd (Update engineFailsHost enableRequest (initial [] []))))"
  "MaintenanceWindows (snd (Update engineFailsHost enableRequest (initial [] []))) = []"
  by (simp_all add: model_defs example_defs setters Let_def)

lemma engineFails_backup:
  assumes "RepositoryConnected (kstate s)" and "MaintenanceWindows s = []"
  shows "kstate (snd (performBackup engineFailsHost s)) =
     (kstate s)\<lparr>InProgress := False, Progress := 25,
       LastStatus := ''Failed to create Kopia snapshot: exit status 1''\<rparr>"
  using assms
  by (simp add: model_defs exampleHost_def engineFailsHost_def exampleJoin_def Let_def Format_noon Split_def)

lemma failedBackupState_progress:
  "\<not> InProgress (kstate failedBackupState)" "Progress (kstate failedBackupState) = 25"
  by (simp_all add: failedBackupState_def engineFails_backup enabled_state)

lemma failedBackupState_reachable: "reachable engineFailsHost failedBackupState"
  unfolding failedBackupState_def
  by (intro reachable_performBackup reachable_Update reachable_initial)

subsection \<open>A completed backup\<close>

lemma Now_simps [simp]:
  "fst (Now h s) = time_now h (calls s)"
  "calls (snd (Now h s)) = calls s @ [TimeNow]"
  by (simp_all add: Now_def)

lemma destroyZFSSnapshot_calls [simp]:
  "calls (snd (destroyZFSSnapshot h n s)) = calls s @ [RunCommand ''zfs'' [''destroy'', n]]"
  by (simp add: destroyZFSSnapshot_def RunCommandContext_def case_prod_beta split: sum.splits)

lemma completedI:
  "\<not> InProgress (kstate s) \<Longrightarrow> Progress (kstate s) = 100 \<Longrightarrow>
   LastStatus (kstate s) = ''Backup completed successfully'' \<Longrightarrow>
   calls s = cs @ TimeNow # rest \<Longrightarrow> TimeNow \<notin> set rest \<Longrightarrow> LastBackup (kstate s) = time_now h cs \<Longrightarrow>
   completed h s"
  unfolding completed_def by blast

lemma performBackup_finish_fst [simp]: "fst (performBackup_finish h n s) = None"
  by (simp add: performBackup_finish_def Let_def case_prod_beta)

lemma performBackup_deferred_fst [simp]: "fst (performBackup_deferred h n r) = fst r"
  by (simp add: performBackup_deferred_def case_prod_beta)

lemma performBackup_finish_completed:
  "completed h (snd (performBackup_deferred h n (performBackup_finish h n s)))"
proof (cases "fst (snd (performBackup_finish h n s)) = None")
  case True
  then show ?thesis
    by (intro completedI [where rest = "[]"])
      (simp_all add: performBackup_deferred_def performBackup_finish_def Let_def case_prod_beta)
next
  case False
  then show ?thesis
    by (intro completedI [where rest = "[RunCommand ''zfs'' [''destroy'', n]]"])
      (simp_all add: performBackup_deferred_def performBackup_finish_def Let_def case_prod_beta)
qed

lemma performBackup_afterDefer_completed:
  "fst (performBackup_afterDefer h p n s) = None \<Longrightarrow>
   completed h (snd (performBackup_deferred h n (performBackup_afterDefer h p n s)))"
  by (simp add: performBackup_afterDefer_def Let_def case_prod_beta performBackup_finish_completed
      split: sum.splits error.splits)

lemma performBackup_cycle_completed:
  "fst (performBackup_cycle h p s) = None \<Longrightarrow> completed h (snd (performBackup_cycle h p s))"
  by (simp add: performBackup_cycle_def Let_def case_prod_beta performBackup_afterDefer_completed
      split: sum.splits)

lemma performBackup_completed:
  "fst (performBackup h s) = None \<Longrightarrow> completed h (snd (performBackup h s))"
  by (simp add: performBackup_def Let_def case_prod_beta performBackup_cycle_completed
      split: sum.splits if_splits)

lemma exampleHost_window: "fst (isInMaintenanceWindow exampleHost s)"
  by (cases "MaintenanceWindows s") (simp_all add: isInMaintenanceWindow_def exampleHost_def Let_def)

lemma exampleHost_backup:
  assumes "RepositoryConnected (kstate s)"
  shows "fst (performBackup exampleHost s) = None"
  using assms exampleHost_window [of s]
  by (simp add: performBackup_def performBackup_cycle_def performBackup_afterDefer_def
      findLocalPool_def createZFSSnapshot_def getSnapshotPath_def getPoolMountpoint_def
      RunCommandContext_def exampleHost_def exampleJoin_def Let_def Split_def case_prod_beta
      Format_noon)

lemma RunCommandContext_calls [simp]:
  "calls (snd (RunCommandContext h n a s)) = calls s @ [RunCommand n a]"
  by (simp add: RunCommandContext_def)

lemma createZFSSnapshot_calls:
  "calls (snd (createZFSSnapshot h p s)) =
     calls s @ [TimeNow, RunCommand ''zfs'' [''snapshot'', p @ ''@kopia-'' @ Format_20060102_150405 (time_now h (calls s))]]"
  by (simp add: createZFSSnapshot_def Let_def case_prod_beta split: sum.splits)

lemma getPoolMountpoint_calls:
  "calls (snd (getPoolMountpoint h p s)) =
     calls s @ [RunCommand ''zfs'' [''get'', ''-H'', ''-o'', ''value'', ''mountpoint'', p]]"
  by (simp add: getPoolMountpoint_def Let_def case_prod_beta split: sum.splits)

lemma restoreSnapshot_calls:
  "calls (snd (restoreSnapshot h i t s)) = calls s @ [RunCommand ''kopia'' [''snapshot'', ''restore'', i, t]]"
  by (simp add: restoreSnapshot_def case_prod_beta split: sum.splits)

lemma applyRestoredData_calls:
  "calls (snd (applyRestoredData h t m s)) =
     calls s @ [RunCommand ''rsync'' [''-a'', ''--delete'', t @ ''/'', m @ ''/'']]"
  by (simp add: applyRestoredData_def case_prod_beta split: sum.splits)

lemma findLocalPool_calls: "calls (snd (findLocalPool h s)) = calls s @ [PoolExists ''local'']"
  by (simp add: findLocalPool_def Let_def)

lemmas step_calls = createZFSSnapshot_calls getPoolMountpoint_calls restoreSnapshot_calls
  applyRestoredData_calls findLocalPool_calls

lemma exampleHost_stopAll:
  assumes "Applications s = [(''incus'', ''6.0'')]"
  shows "calls (PerformRestore_stopAll exampleHost s) =
     calls s @ [LoadApplication ''incus'', ApplicationStop ''incus'' ''6.0'', SupportedServices,
                LoadService ''ovn'', ServiceShouldStart ''ovn'', ServiceStop ''ovn'']"
  using assms by (simp add: PerformRestore_stopAll_def exampleHost_def Let_def)

lemma exampleHost_startAll:
  assumes "Applications s = [(''incus'', ''6.0'')]"
  shows "calls (PerformRestore_startAll exampleHost s) =
     calls s @ [SupportedServices, LoadService ''ovn'', ServiceShouldStart ''ovn'', ServiceStart ''ovn'',
                LoadApplication ''incus'', ApplicationStart ''incus'' ''6.0'']"
  using assms by (simp add: PerformRestore_startAll_def exampleHost_def Let_def)

lemma exampleHost_answers [simp]:
  "fst (restoreSnapshot exampleHost i t s) = None"
  "fst (applyRestoredData exampleHost t m s) = None"
  "fst (getPoolMountpoint exampleHost p s) = Inr ''/local''"
  "fst (createZFSSnapshot exampleHost p s) = Inr (p @ ''@kopia-20240102-120000'')"
  "fst (findLocalPool exampleHost s) = Inr ''local''"
  "time_now exampleHost cs = noon"
  "pool_exists exampleHost cs p"
  "os_mkdir_all exampleHost cs t = None"
  "filepath_Join exampleHost [''/local'', ''.kopia-restore-temp''] = ''/local/.kopia-restore-temp''"
  by (simp_all add: restoreSnapshot_def applyRestoredData_def getPoolMountpoint_def
      createZFSSnapshot_def findLocalPool_def RunCommandContext_def exampleHost_def exampleJoin_def
      Let_def case_prod_beta Format_noon)

lemma exampleHost_afterDefer:
  assumes "Applications s = [(''incus'', ''6.0'')]"
  shows "fst (PerformRestore_afterDefer exampleHost i m t s) = None"
    and "progress_log (snd (PerformRestore_afterDefer exampleHost i m t s)) = progress_log s @ [50, 70, 80, 100]"
    and "calls (snd (PerformRestore_afterDefer exampleHost i m t s)) =
     calls s @ [RunCommand ''kopia'' [''snapshot'', ''restore'', i, t],
                RunCommand ''rsync'' [''-a'', ''--delete'', t @ ''/'', m @ ''/''],
                SupportedServices, LoadService ''ovn'', ServiceShouldStart ''ovn'', ServiceStart ''ovn'',
                LoadApplication ''incus'', ApplicationStart ''incus'' ''6.0'']"
  using assms
  by (simp_all add: PerformRestore_afterDefer_def Let_def case_prod_beta step_calls exampleHost_startAll)

lemma exampleHost_stage:
  assumes "Applications s = [(''incus'', ''6.0'')]"
  shows "fst (PerformRestore_stage exampleHost i ''local'' s) = None"
    and "progress_log (snd (PerformRestore_stage exampleHost i ''local'' s)) =
           progress_log s @ [30, 40, 50, 70, 80, 100]"
    and "calls (snd (PerformRestore_stage exampleHost i ''local'' s)) =
     calls s @ [RunCommand ''zfs'' [''get'', ''-H'', ''-o'', ''value'', ''mountpoint'', ''local''],
                MkdirAll ''/local/.kopia-restore-temp'',
                RunCommand ''kopia'' [''snapshot'', ''restore'', i, ''/local/.kopia-restore-temp''],
                RunCommand ''rsync'' [''-a'', ''--delete'', ''/local/.kopia-restore-temp/'', ''/local/''],
                SupportedServices, LoadService ''ovn'', ServiceShouldStart ''ovn'', ServiceStart ''ovn'',
                LoadApplication ''incus'', ApplicationStart ''incus'' ''6.0'',
                RemoveAll ''/local/.kopia-restore-temp'']"
  using assms
  by (simp_all add: PerformRestore_stage_def Let_def case_prod_beta step_calls exampleHost_afterDefer)

lemma exampleHost_cycle:
  assumes "Applications s = [(''incus'', ''6.0'')]"
  shows "fst (PerformRestore_cycle exampleHost i ''local'' s) = None"
    and "progress_log (snd (PerformRestore_cycle exampleHost i ''local'' s)) =
           progress_log s @ [0, 20, 30, 40, 50, 70, 80, 100]"
    and "calls (snd (PerformRestore_cycle exampleHost i ''local'' s)) =
     calls s @ [LoadApplication ''incus'', ApplicationStop ''incus'' ''6.0'', SupportedServices,
                LoadService ''ovn'', ServiceShouldStart ''ovn'', ServiceStop ''ovn'',
                TimeNow, TimeNow,
                RunCommand ''zfs'' [''snapshot'', ''local@before-restore-20240102-120000@kopia-20240102-120000''],
                RunCommand ''zfs'' [''get'', ''-H'', ''-o'', ''value'', ''mountpoint'', ''local''],
                MkdirAll ''/local/.kopia-restore-temp'',
                RunCommand ''kopia'' [''snapshot'', ''restore'', i, ''/local/.kopia-restore-temp''],
                RunCommand ''rsync'' [''-a'', ''--delete'', ''/local/.kopia-restore-temp/'', ''/local/''],
                SupportedServices, LoadService ''ovn'', ServiceShouldStart ''ovn'', ServiceStart ''ovn'',
                LoadApplication ''incus'', ApplicationStart ''incus'' ''6.0'',
                RemoveAll ''/local/.kopia-restore-temp'']"
  using assms
  by (simp_all add: PerformRestore_cycle_def Let_def case_prod_beta step_calls exampleHost_stage
      exampleHost_stopAll Format_noon)

lemma exampleHost_restore:
  assumes "RepositoryConnected (kstate s)" and "Applications s = [(''incus'', ''6.0'')]"
  shows "fst (PerformRestore exampleHost i s) = None"
    and "progress_log (snd (PerformRestore exampleHost i s)) =
           progress_log s @ [0, 20, 30, 40, 50, 70, 80, 100]"
    and "calls (snd (PerformRestore exampleHost i s)) =
     calls s @ [PoolExists ''local'',
                LoadApplication ''incus'', ApplicationStop ''incus'' ''6.0'', SupportedServices,
                LoadService ''ovn'', ServiceShouldStart ''ovn'', ServiceStop ''ovn'',
                TimeNow, TimeNow,
                RunCommand ''zfs'' [''snapshot'', ''local@before-restore-20240102-120000@kopia-20240102-120000''],
                RunCommand ''zfs'' [''get'', ''-H'', ''-o'', ''value'', ''mountpoint'', ''local''],
                MkdirAll ''/local/.kopia-restore-temp'',
                RunCommand ''kopia'' [''snapshot'', ''restore'', i, ''/local/.kopia-restore-temp''],
                RunCommand ''rsync'' [''-a'', ''--delete'', ''/local/.kopia-restore-temp/'', ''/local/''],
                SupportedServices, LoadService ''ovn'', ServiceShouldStart ''ovn'', ServiceStart ''ovn'',
                LoadApplication ''incus'', ApplicationStart ''incus'' ''6.0'',
                RemoveAll ''/local/.kopia-restore-temp'']"
  using assms
  by (simp_all add: PerformRestore_def case_prod_beta exampleHost_cycle findLocalPool_calls)

lemma connectedState_fields:
  "RepositoryConnected (kstate connectedState)" "Applications connectedState = [(''incus'', ''6.0'')]"
  "calls connectedState = []" "progress_log connectedState = []"
  "kconfig connectedState = exampleConfig" "\<not> InProgress (kstate connectedState)"
  "MaintenanceWindows connectedState = []"
  by (simp_all add: connectedState_def kstate_def kconfig_def)

section \<open>The claims\<close>

text \<open>
  C9. When all six keep counts of the retention policy are zero (absent), \<open>applyRetention\<close>
  returns no error and leaves the state as it is, the record of calls included: no
  \<open>kopia snapshot expire\<close> is run.
\<close>

theorem applyRetention_empty_policy:
  assumes "KeepLatest (Retention (kconfig s)) = 0" and "KeepHourly (Retention (kconfig s)) = 0"
    and "KeepDaily (Retention (kconfig s)) = 0" and "KeepWeekly (Retention (kconfig s)) = 0"
    and "KeepMonthly (Retention (kconfig s)) = 0" and "KeepAnnual (Retention (kconfig s)) = 0"
  shows "applyRetention h s = (None, s)"
  using assms by (simp add: applyRetention_def retentionArgs_def)

theorem applyRetention_empty_policy_witness:
  "KeepLatest (Retention (kconfig (initial [] []))) = 0 \<and>
   KeepHourly (Retention (kconfig (initial [] []))) = 0 \<and>
   KeepDaily (Retention (kconfig (initial [] []))) = 0 \<and>
   KeepWeekly (Retention (kconfig (initial [] []))) = 0 \<and>
   KeepMonthly (Retention (kconfig (initial [] []))) = 0 \<and>
   KeepAnnual (Retention (kconfig (initial [] []))) = 0 \<and>
   applyRetention exampleHost (initial [] []) = (None, initial [] [])"
proof -
  have z: "Retention (kconfig (initial [] [])) =
      \<lparr>KeepLatest = 0, KeepHourly = 0, KeepDaily = 0, KeepWeekly = 0, KeepMonthly = 0, KeepAnnual = 0\<rparr>"
    by (simp add: initial_def zeroKopia_def kconfig_def)
  show ?thesis
    using applyRetention_empty_policy [of "initial [] []" exampleHost] by (simp add: z)
qed

text \<open>
  C6. A restore requested while the repository is not connected fails with an error and
  changes nothing: the service record (\<open>in_progress\<close>, \<open>progress\<close> and \<open>last_status\<close> included)
  and the record of calls are what they were, so no service or application is stopped.
\<close>

theorem PerformRestore_not_connected:
  "\<not> RepositoryConnected (kstate s) \<Longrightarrow>
   PerformRestore h snapshotID s = (Some (Err ''repository not connected''), s)"
  by (simp add: PerformRestore_def)

theorem PerformRestore_not_connected_witness:
  "\<not> RepositoryConnected (kstate (initial [(''incus'', ''6.0'')] [])) \<and>
   PerformRestore exampleHost ''k123'' (initial [(''incus'', ''6.0'')] []) =
     (Some (Err ''repository not connected''), initial [(''incus'', ''6.0'')] [])"
proof -
  have n: "\<not> RepositoryConnected (kstate (initial [(''incus'', ''6.0'')] []))"
    by (simp add: initial_def zeroKopia_def kstate_def)
  show ?thesis
    using n PerformRestore_not_connected [OF n, of exampleHost "''k123''"] by simp
qed

text \<open>
  C5, amended. In every state the service is in between two operations, \<open>in_progress\<close> false
  implies that \<open>progress\<close> is one of 0, 20, 25, 30, 40, 50, 70 and 100: a cycle that fails keeps
  the progress of its last checkpoint. Within one run of the backup or of the restore, the
  values assigned to \<open>progress\<close> never decrease.
\<close>

theorem progress_at_rest_and_climbing:
  "(reachable h s \<longrightarrow> \<not> InProgress (kstate s) \<longrightarrow>
      Progress (kstate s) \<in> {0, 20, 25, 30, 40, 50, 70, 100})
   \<and> (\<exists>ps. progress_log (snd (performBackup h s)) = progress_log s @ ps \<and> sorted ps)
   \<and> (\<exists>ps. progress_log (snd (PerformRestore h snapshotID s)) = progress_log s @ ps \<and> sorted ps)"
proof (intro conjI impI)
  assume "reachable h s"
  then have "at_rest s" by (rule reachable_at_rest)
  then show "Progress (kstate s) \<in> {0, 20, 25, 30, 40, 50, 70, 100}"
    by (simp add: at_rest_def checkpoint_def)
next
  show "\<exists>ps. progress_log (snd (performBackup h s)) = progress_log s @ ps \<and> sorted ps"
    by (rule climbsD [OF performBackup_climbs])
next
  show "\<exists>ps. progress_log (snd (PerformRestore h snapshotID s)) = progress_log s @ ps \<and> sorted ps"
    by (rule climbsD [OF PerformRestore_climbs])
qed

theorem progress_at_rest_and_climbing_witness:
  "reachable engineFailsHost failedBackupState \<and> \<not> InProgress (kstate failedBackupState) \<and>
   Progress (kstate failedBackupState) \<in> {0, 20, 25, 30, 40, 50, 70, 100}"
proof -
  have r: "reachable engineFailsHost failedBackupState"
    by (rule failedBackupState_reachable)
  have n: "\<not> InProgress (kstate failedBackupState)"
    by (rule failedBackupState_progress)
  from progress_at_rest_and_climbing [of engineFailsHost failedBackupState]
  have "Progress (kstate failedBackupState) \<in> {0, 20, 25, 30, 40, 50, 70, 100}"
    using r n by blast
  with r n show ?thesis by blast
qed

theorem progress_zero_or_hundred_counterexample:
  "reachable engineFailsHost failedBackupState \<and> \<not> InProgress (kstate failedBackupState) \<and>
   Progress (kstate failedBackupState) \<notin> {0, 100}"
  using failedBackupState_reachable by (simp add: failedBackupState_progress)

text \<open>
  C3. The restore of snapshot \<open>k123\<close> on the example host, from a connected service at rest:
  the only snapshot command issued is a \<open>zfs snapshot\<close> whose name has two \<open>@\<close> and ends in
  the backup-cycle suffix \<open>@kopia-<timestamp>\<close>, not the name \<open>local@before-restore-<timestamp>\<close>.
\<close>

theorem safety_snapshot_name:
  "calls (snd (PerformRestore exampleHost ''k123'' connectedState)) =
     [PoolExists ''local'',
      LoadApplication ''incus'', ApplicationStop ''incus'' ''6.0'', SupportedServices,
      LoadService ''ovn'', ServiceShouldStart ''ovn'', ServiceStop ''ovn'',
      TimeNow, TimeNow,
      RunCommand ''zfs'' [''snapshot'', ''local@before-restore-20240102-120000@kopia-20240102-120000''],
      RunCommand ''zfs'' [''get'', ''-H'', ''-o'', ''value'', ''mountpoint'', ''local''],
      MkdirAll ''/local/.kopia-restore-temp'',
      RunCommand ''kopia'' [''snapshot'', ''restore'', ''k123'', ''/local/.kopia-restore-temp''],
      RunCommand ''rsync'' [''-a'', ''--delete'', ''/local/.kopia-restore-temp/'', ''/local/''],
      SupportedServices, LoadService ''ovn'', ServiceShouldStart ''ovn'', ServiceStart ''ovn'',
      LoadApplication ''incus'', ApplicationStart ''incus'' ''6.0'',
      RemoveAll ''/local/.kopia-restore-temp'']"
  by (simp add: exampleHost_restore connectedState_fields)

end
